theory Spec2Isabelle
  imports Main "HOL-Library.Char_ord" "HOL-Library.List_Lexorder"
begin

section \<open>Paths, as \<^verbatim>\<open>pathlib\<close> presents them to \<^verbatim>\<open>facefusion_batch.py\<close>\<close>

text \<open>
  A POSIX path object is its anchor (\<open>''/''\<close>, \<open>''//''\<close> or empty) and its list of
  components. Strings are byte strings; the file names of one directory are compared
  byte by byte, which is the order of the code points they encode.
\<close>

datatype path = Path (anchor: string) (parts: "string list")

fun split_sep :: "string \<Rightarrow> string list" where
  "split_sep [] = [] # []"
| "split_sep (c # cs) =
     (if c = CHR ''/'' then [] # split_sep cs
      else (case split_sep cs of [] \<Rightarrow> [c] # [] | w # ws \<Rightarrow> (c # w) # ws))"

definition anchor_of_string :: "string \<Rightarrow> string" where
  "anchor_of_string s =
     (if take 1 s = ''/'' then
        (if take 2 s = ''//'' \<and> take 3 s \<noteq> ''///'' then ''//'' else ''/'')
      else [])"

text \<open>\<^verbatim>\<open>Path(s)\<close>: empty components and \<^verbatim>\<open>.\<close> components are dropped.\<close>

definition Path_of :: "string \<Rightarrow> path" where
  "Path_of s = Path (anchor_of_string s) (filter (\<lambda>c. c \<noteq> [] \<and> c \<noteq> ''.'') (split_sep s))"

text \<open>
  \<^verbatim>\<open>p / seg\<close> for a right operand that is one relative component. Every right
  operand in the source is one: the literals \<^verbatim>\<open>'facefusion'\<close>, \<^verbatim>\<open>'projects'\<close>,
  \<^verbatim>\<open>'facefusion.py'\<close>, a directory entry, and the output file name.
\<close>

definition joinpath :: "path \<Rightarrow> string \<Rightarrow> path" where
  "joinpath p seg = Path (anchor p) (parts p @ [seg])"

definition parent_of :: "path \<Rightarrow> path" where
  "parent_of p = Path (anchor p) (butlast (parts p))"

definition name_of :: "path \<Rightarrow> string" where
  "name_of p = (if parts p = [] then [] else last (parts p))"

text \<open>\<^verbatim>\<open>str.rfind\<close>: the highest index of the character, or \<open>-1\<close>.\<close>

fun rfind :: "char \<Rightarrow> string \<Rightarrow> int" where
  "rfind c [] = - 1"
| "rfind c (x # xs) =
     (let r = rfind c xs in if 0 \<le> r then r + 1 else if x = c then 0 else - 1)"

text \<open>
  \<^verbatim>\<open>PurePath.suffix\<close> and \<^verbatim>\<open>PurePath.stem\<close> (CPython 3.8 to 3.13):
  \<^verbatim>\<open>i = name.rfind('.')\<close>, and the name is cut at \<open>i\<close> when \<^verbatim>\<open>0 < i < len(name) - 1\<close>.
\<close>

definition suffix_of :: "path \<Rightarrow> string" where
  "suffix_of p =
     (let name = name_of p; i = rfind CHR ''.'' name
      in if 0 < i \<and> i < int (length name) - 1 then drop (nat i) name else [])"

definition stem_of :: "path \<Rightarrow> string" where
  "stem_of p =
     (let name = name_of p; i = rfind CHR ''.'' name
      in if 0 < i \<and> i < int (length name) - 1 then take (nat i) name else name)"

fun join_sep :: "string list \<Rightarrow> string" where
  "join_sep [] = []"
| "join_sep [x] = x"
| "join_sep (x # y # ys) = x @ ''/'' @ join_sep (y # ys)"

text \<open>\<^verbatim>\<open>str(p)\<close>; the empty relative path prints as \<^verbatim>\<open>.\<close>\<close>

definition str_of :: "path \<Rightarrow> string" where
  "str_of p =
     (if anchor p = [] \<and> parts p = [] then ''.'' else anchor p @ join_sep (parts p))"

text \<open>The key by which two paths are ordered: the anchor, when there is one, then the components.\<close>

definition cparts :: "path \<Rightarrow> string list" where
  "cparts p = (if anchor p = [] then parts p else anchor p # parts p)"


section \<open>Exceptions\<close>

datatype exc_kind =
    FileNotFoundError | NotADirectoryError | FileExistsError
  | ValueError | AttributeError | OtherException | KeyboardInterrupt

datatype exn = Exn (kind: exc_kind) (message: string)

text \<open>\<^verbatim>\<open>except Exception\<close> catches every kind but \<^verbatim>\<open>KeyboardInterrupt\<close>.\<close>

definition is_Exception :: "exn \<Rightarrow> bool" where
  "is_Exception e = (kind e \<noteq> KeyboardInterrupt)"


section \<open>The file system\<close>

text \<open>
  A path names nothing, a regular file, a directory with its entries in the order the
  operating system lists them, or something else (a socket, a device). Symbolic links and
  permissions are not modelled, and a path is looked up as the program writes it.
\<close>

datatype node = RegFile | Dir "string list" | Special

type_synonym fs = "path \<Rightarrow> node option"

definition exists_p :: "fs \<Rightarrow> path \<Rightarrow> bool" where
  "exists_p f p = (f p \<noteq> None)"

definition is_file :: "fs \<Rightarrow> path \<Rightarrow> bool" where
  "is_file f p = (f p = Some RegFile)"

definition is_dir :: "fs \<Rightarrow> path \<Rightarrow> bool" where
  "is_dir f p = (case f p of Some (Dir ns) \<Rightarrow> True | _ \<Rightarrow> False)"

definition iterdir :: "fs \<Rightarrow> path \<Rightarrow> exn + path list" where
  "iterdir f p =
     (case f p of
        None \<Rightarrow> Inl (Exn FileNotFoundError (str_of p))
      | Some (Dir ns) \<Rightarrow> Inr (map (joinpath p) ns)
      | Some _ \<Rightarrow> Inl (Exn NotADirectoryError (str_of p)))"


section \<open>The batch object\<close>

record batch =
  source_image :: path
  target_dir :: path
  output_dir :: path
  facefusion_path :: path
  execution_provider :: string
  face_swapper_model :: string
  verbose :: bool

text \<open>The first two lines of \<^verbatim>\<open>process_single_image\<close>.\<close>

definition output_filename :: "batch \<Rightarrow> path \<Rightarrow> string" where
  "output_filename self target_image =
     stem_of (source_image self) @ ''_to_'' @ stem_of target_image @ suffix_of target_image"

definition output_path :: "batch \<Rightarrow> path \<Rightarrow> path" where
  "output_path self target_image = joinpath (output_dir self) (output_filename self target_image)"


section \<open>The target enumerator\<close>

text \<open>
  \<^verbatim>\<open>str.lower\<close> on the bytes of a suffix: only the letters \<^verbatim>\<open>A\<close> to \<^verbatim>\<open>Z\<close> change.
\<close>

definition lower_char :: "char \<Rightarrow> char" where
  "lower_char c =
     (let n = (of_char c :: nat) in if 65 \<le> n \<and> n \<le> 90 then char_of (n + 32) else c)"

definition lower :: "string \<Rightarrow> string" where
  "lower s = map lower_char s"

definition image_extensions :: "string set" where
  "image_extensions = {''.jpg'', ''.jpeg'', ''.png'', ''.bmp'', ''.tiff'', ''.webp''}"

definition is_target_image :: "fs \<Rightarrow> path \<Rightarrow> bool" where
  "is_target_image f file = (is_file f file \<and> lower (suffix_of file) \<in> image_extensions)"

text \<open>\<^verbatim>\<open>_get_target_images\<close>; \<^verbatim>\<open>sorted\<close> is a stable sort of the path objects.\<close>

definition get_target_images :: "fs \<Rightarrow> batch \<Rightarrow> exn + path list" where
  "get_target_images f self =
     (case iterdir f (target_dir self) of
        Inl e \<Rightarrow> Inl e
      | Inr entries \<Rightarrow> Inr (sort_key cparts (filter (is_target_image f) entries)))"


section \<open>The environment of a run\<close>

text \<open>
  The external tool is a function of the command, the working directory and the file
  system: it exits with a return code or \<^verbatim>\<open>subprocess.run\<close> raises, and it leaves a
  file system behind. \<open>sleep_interrupted idx\<close> says whether the user interrupts the
  pause after job \<open>idx\<close>. These are the two places where the program waits, and the
  places where an interrupt is delivered here. \<open>home\<close> and \<open>cwd\<close> are what
  \<^verbatim>\<open>Path.home()\<close> and \<^verbatim>\<open>Path.cwd()\<close> return, \<open>executable\<close> is \<^verbatim>\<open>sys.executable\<close>.
\<close>

datatype run_outcome = Exited int | Raised exn

record env =
  home :: path
  cwd :: path
  executable :: string
  run :: "string list \<Rightarrow> string \<Rightarrow> fs \<Rightarrow> run_outcome \<times> fs"
  sleep_interrupted :: "nat \<Rightarrow> bool"

text \<open>The state a run changes: the files, and the calls of \<^verbatim>\<open>subprocess.run\<close> so far.\<close>

record world =
  files :: fs
  invocations :: "(string list \<times> string) list"


section \<open>The command builder\<close>

definition build_command :: "env \<Rightarrow> batch \<Rightarrow> path \<Rightarrow> path \<Rightarrow> string list" where
  "build_command E self target_image out =
     (let cmd =
        [executable E,
         str_of (joinpath (facefusion_path self) ''facefusion.py''),
         ''headless-run'',
         ''--source'', str_of (source_image self),
         ''--target'', str_of target_image,
         ''--output'', str_of out,
         ''--processors'', ''face_swapper'',
         ''--face-swapper-model'', face_swapper_model self,
         ''--execution-providers'', execution_provider self,
         ''--skip-download'']
      in if execution_provider self = ''cuda''
         then cmd @ [''--execution-device-id'', ''0'']
         else cmd)"


section \<open>The job runner\<close>

text \<open>
  \<^verbatim>\<open>process_single_image\<close>: what it returns, or the exception that leaves it, and
  the state afterwards. What it prints is not part of the state. The \<^verbatim>\<open>try\<close> block
  turns every exception of \<^verbatim>\<open>subprocess.run\<close> that is an \<^verbatim>\<open>Exception\<close> into \<open>False\<close>.
\<close>

definition process_single_image ::
  "env \<Rightarrow> batch \<Rightarrow> path \<Rightarrow> world \<Rightarrow> (exn + bool) \<times> world" where
  "process_single_image E self target_image w =
     (let out = output_path self target_image in
      if exists_p (files w) out \<and> \<not> verbose self then (Inr True, w)
      else
        let cmd = build_command E self target_image out;
            wd = str_of (facefusion_path self);
            w1 = w\<lparr>invocations := invocations w @ [(cmd, wd)]\<rparr>
        in case run E cmd wd (files w) of
             (Raised e, f') \<Rightarrow>
               if is_Exception e then (Inr False, w1\<lparr>files := f'\<rparr>)
               else (Inl e, w1\<lparr>files := f'\<rparr>)
           | (Exited returncode, f') \<Rightarrow>
               if returncode = 0
               then (if exists_p f' out then (Inr True, w1\<lparr>files := f'\<rparr>)
                     else (Inr False, w1\<lparr>files := f'\<rparr>))
               else (Inr False, w1\<lparr>files := f'\<rparr>))"


section \<open>The batch controller\<close>

text \<open>
  The loop of \<^verbatim>\<open>process_batch\<close> over \<^verbatim>\<open>enumerate(target_images, 1)\<close>, with the two
  counters. An exception that leaves \<^verbatim>\<open>process_single_image\<close>, or an interrupt of the
  pause, leaves the loop.
\<close>

fun batch_loop ::
  "env \<Rightarrow> batch \<Rightarrow> nat \<Rightarrow> (nat \<times> path) list \<Rightarrow> nat \<Rightarrow> nat \<Rightarrow> world
     \<Rightarrow> (exn + nat \<times> nat) \<times> world" where
  "batch_loop E self total_n [] successful failed w = (Inr (successful, failed), w)"
| "batch_loop E self total_n ((idx, target_image) # rest) successful failed w =
     (case process_single_image E self target_image w of
        (Inl e, w1) \<Rightarrow> (Inl e, w1)
      | (Inr ok, w1) \<Rightarrow>
          let successful1 = (if ok then successful + 1 else successful);
              failed1 = (if ok then failed else failed + 1)
          in if idx < total_n \<and> sleep_interrupted E idx
             then (Inl (Exn KeyboardInterrupt []), w1)
             else batch_loop E self total_n rest successful1 failed1 w1)"

text \<open>
  What the calls of \<^verbatim>\<open>process_single_image\<close> give when the targets are taken one after
  another, each job on the state the job before it left: the list of what each call
  returned or raised, which ends with the first exception.
\<close>

fun run_jobs :: "env \<Rightarrow> batch \<Rightarrow> path list \<Rightarrow> world \<Rightarrow> (exn + bool) list" where
  "run_jobs E self [] w = []"
| "run_jobs E self (target_image # rest) w =
     (case process_single_image E self target_image w of
        (Inl e, w1) \<Rightarrow> [Inl e]
      | (Inr ok, w1) \<Rightarrow> Inr ok # run_jobs E self rest w1)"

definition process_batch :: "env \<Rightarrow> batch \<Rightarrow> world \<Rightarrow> (exn + nat \<times> nat) \<times> world" where
  "process_batch E self w =
     (case get_target_images (files w) self of
        Inl e \<Rightarrow> (Inl e, w)
      | Inr target_images \<Rightarrow>
          batch_loop E self (length target_images) (enumerate 1 target_images) 0 0 w)"


section \<open>The installation locator\<close>

definition possible_paths :: "env \<Rightarrow> path list" where
  "possible_paths E =
     [joinpath (home E) ''facefusion'',
      joinpath (cwd E) ''facefusion'',
      Path_of ''/opt/facefusion'',
      joinpath (joinpath (home E) ''projects'') ''facefusion'']"

definition not_found_message :: string where
  "not_found_message =
     ''FaceFusion installation not found. Please specify the path using --facefusion-path or '' @
     ''install it in one of the default locations: ~/facefusion, ./facefusion, /opt/facefusion''"

text \<open>
  Reading \<^verbatim>\<open>self.verbose\<close>: the attribute is \<open>None\<close> until \<^verbatim>\<open>__init__\<close> has assigned
  it, and reading it then raises \<^verbatim>\<open>AttributeError\<close>.
\<close>

definition getattr_verbose :: "bool option \<Rightarrow> exn + bool" where
  "getattr_verbose a =
     (case a of None \<Rightarrow> Inl (Exn AttributeError ''verbose'') | Some b \<Rightarrow> Inr b)"

text \<open>The \<^verbatim>\<open>for\<close> loop of \<^verbatim>\<open>_find_facefusion\<close>; \<open>None\<close> when it runs to its end.\<close>

fun find_loop :: "fs \<Rightarrow> bool option \<Rightarrow> path list \<Rightarrow> (exn + path) option" where
  "find_loop f verbose_attr [] = None"
| "find_loop f verbose_attr (p # ps) =
     (if exists_p f p \<and> exists_p f (joinpath p ''facefusion.py'')
      then (case getattr_verbose verbose_attr of
              Inl e \<Rightarrow> Some (Inl e)
            | Inr v \<Rightarrow> Some (Inr p))
      else find_loop f verbose_attr ps)"

definition find_facefusion :: "env \<Rightarrow> fs \<Rightarrow> bool option \<Rightarrow> exn + path" where
  "find_facefusion E f verbose_attr =
     (case find_loop f verbose_attr (possible_paths E) of
        Some r \<Rightarrow> r
      | None \<Rightarrow> Inl (Exn FileNotFoundError not_found_message))"


section \<open>The input validator\<close>

definition validate_inputs :: "fs \<Rightarrow> batch \<Rightarrow> exn + unit" where
  "validate_inputs f self =
     (if \<not> exists_p f (source_image self)
      then Inl (Exn FileNotFoundError
                  (''Source image not found: '' @ str_of (source_image self)))
      else if \<not> exists_p f (target_dir self)
      then Inl (Exn FileNotFoundError
                  (''Target directory not found: '' @ str_of (target_dir self)))
      else if \<not> exists_p f (joinpath (facefusion_path self) ''facefusion.py'')
      then Inl (Exn FileNotFoundError
                  (''facefusion.py not found in: '' @ str_of (facefusion_path self)))
      else (case get_target_images f self of
              Inl e \<Rightarrow> Inl e
            | Inr target_images \<Rightarrow>
                if target_images = []
                then Inl (Exn ValueError
                            (''No valid image files found in target directory: '' @
                             str_of (target_dir self)))
                else Inr ()))"


section \<open>Creating the output directory\<close>

text \<open>
  \<^verbatim>\<open>os.mkdir\<close>: the path must be free and its parent a directory; the new directory is
  empty and is entered in its parent. These are its only errors here: limits on names,
  on space and on rights are not modelled.
\<close>

definition os_mkdir :: "fs \<Rightarrow> path \<Rightarrow> exn + fs" where
  "os_mkdir f p =
     (if f p \<noteq> None then Inl (Exn FileExistsError (str_of p))
      else (case f (parent_of p) of
              None \<Rightarrow> Inl (Exn FileNotFoundError (str_of p))
            | Some (Dir ns) \<Rightarrow> Inr (f(parent_of p \<mapsto> Dir (ns @ [name_of p]), p \<mapsto> Dir []))
            | Some _ \<Rightarrow> Inl (Exn NotADirectoryError (str_of p))))"

text \<open>
  \<^verbatim>\<open>Path.mkdir(parents=..., exist_ok=True)\<close>: a missing parent is made first, with its
  own parents, and any other error is forgiven when the path is a directory already.
\<close>

function mkdir :: "bool \<Rightarrow> fs \<Rightarrow> path \<Rightarrow> (exn + unit) \<times> fs" where
  "mkdir parents f p =
     (case os_mkdir f p of
        Inr f' \<Rightarrow> (Inr (), f')
      | Inl e \<Rightarrow>
          if kind e = FileNotFoundError then
            (if \<not> parents \<or> parent_of p = p then (Inl e, f)
             else (case mkdir True f (parent_of p) of
                     (Inl e', f1) \<Rightarrow> (Inl e', f1)
                   | (Inr u, f1) \<Rightarrow> mkdir False f1 p))
          else if \<not> is_dir f p then (Inl e, f)
          else (Inr (), f))"
  by pat_completeness auto

termination
proof (relation "measure (\<lambda>(parents, f, p). 2 * length (parts p) + (if parents then 1 else 0))")
  show "wf (measure (\<lambda>(parents, f, p). 2 * length (parts p) + (if parents then 1 else 0)))"
    by simp
next
  fix parents :: bool and f :: fs and p :: path and e :: exn
  assume a: "\<not> (\<not> parents \<or> parent_of p = p)"
  then have "parts p \<noteq> []"
    by (cases p) (auto simp: parent_of_def)
  then have "0 < length (parts p)"
    by simp
  with a show "((True, f, parent_of p), (parents, f, p))
      \<in> measure (\<lambda>(parents, f, p). 2 * length (parts p) + (if parents then 1 else 0))"
    by (simp add: parent_of_def)
next
  fix parents :: bool and f f1 :: fs and p :: path
  assume "\<not> (\<not> parents \<or> parent_of p = p)"
  then show "((False, f1, p), (parents, f, p))
      \<in> measure (\<lambda>(parents, f, p). 2 * length (parts p) + (if parents then 1 else 0))"
    by simp
qed

declare mkdir.simps [simp del]

text \<open>\<^verbatim>\<open>_prepare_output_dir\<close>: \<^verbatim>\<open>self.output_dir.mkdir(parents=True, exist_ok=True)\<close>.\<close>

definition prepare_output_dir :: "fs \<Rightarrow> batch \<Rightarrow> (exn + unit) \<times> fs" where
  "prepare_output_dir f self = mkdir True f (output_dir self)"


section \<open>Construction\<close>

text \<open>
  \<^verbatim>\<open>__init__\<close>. The installation path is the explicit one when that string is not
  empty; otherwise \<^verbatim>\<open>_find_facefusion\<close> is called, on line 23, before line 26 assigns
  \<^verbatim>\<open>self.verbose\<close>: the attribute it reads is still \<open>None\<close>.
\<close>

definition init ::
  "env \<Rightarrow> string \<Rightarrow> string \<Rightarrow> string \<Rightarrow> string option \<Rightarrow> string \<Rightarrow> string \<Rightarrow> bool \<Rightarrow> fs
     \<Rightarrow> (exn + batch) \<times> fs" where
  "init E source_image_arg target_dir_arg output_dir_arg facefusion_path_arg
        execution_provider_arg face_swapper_model_arg verbose_arg f =
     (case (case facefusion_path_arg of
              Some (c # cs) \<Rightarrow> Inr (Path_of (c # cs))
            | _ \<Rightarrow> find_facefusion E f None) of
        Inl e \<Rightarrow> (Inl e, f)
      | Inr found \<Rightarrow>
          let self = \<lparr>source_image = Path_of source_image_arg,
                      target_dir = Path_of target_dir_arg,
                      output_dir = Path_of output_dir_arg,
                      facefusion_path = found,
                      execution_provider = execution_provider_arg,
                      face_swapper_model = face_swapper_model_arg,
                      verbose = verbose_arg\<rparr>
          in (case validate_inputs f self of
                Inl e \<Rightarrow> (Inl e, f)
              | Inr u \<Rightarrow>
                  (case prepare_output_dir f self of
                     (Inl e, f') \<Rightarrow> (Inl e, f')
                   | (Inr u', f') \<Rightarrow> (Inr self, f'))))"


section \<open>The command line\<close>

record args =
  arg_source :: string
  arg_target_dir :: string
  arg_output_dir :: string
  arg_facefusion_path :: "string option"
  arg_execution_provider :: string
  arg_face_swapper_model :: string
  arg_verbose :: bool

text \<open>The three \<^verbatim>\<open>except\<close> clauses of \<^verbatim>\<open>main\<close>, in their order.\<close>

definition exit_code_of_exn :: "exn \<Rightarrow> int" where
  "exit_code_of_exn e =
     (if kind e = FileNotFoundError \<or> kind e = ValueError then 1
      else if kind e = KeyboardInterrupt then 130
      else 1)"

text \<open>\<^verbatim>\<open>main\<close> after \<^verbatim>\<open>parse_args\<close>: the exit status, and the state the run leaves.\<close>

definition main :: "env \<Rightarrow> args \<Rightarrow> fs \<Rightarrow> int \<times> world" where
  "main E a f =
     (case init E (arg_source a) (arg_target_dir a) (arg_output_dir a) (arg_facefusion_path a)
             (arg_execution_provider a) (arg_face_swapper_model a) (arg_verbose a) f of
        (Inl e, f') \<Rightarrow> (exit_code_of_exn e, \<lparr>files = f', invocations = []\<rparr>)
      | (Inr processor, f') \<Rightarrow>
          (case process_batch E processor \<lparr>files = f', invocations = []\<rparr> of
             (Inl e, w) \<Rightarrow> (exit_code_of_exn e, w)
           | (Inr (successful, failed), w) \<Rightarrow> ((if failed = 0 then 0 else 1), w)))"


section \<open>Reading a message\<close>

text \<open>A message names a location when the location occurs in it, as \<^verbatim>\<open>sub in s\<close> tests.\<close>

fun starts_with :: "string \<Rightarrow> string \<Rightarrow> bool" where
  "starts_with [] s = True"
| "starts_with (x # xs) [] = False"
| "starts_with (x # xs) (y # ys) = (x = y \<and> starts_with xs ys)"

fun contains :: "string \<Rightarrow> string \<Rightarrow> bool" where
  "contains sub [] = (sub = [])"
| "contains sub (c # cs) = (starts_with sub (c # cs) \<or> contains sub cs)"


section \<open>A worked run\<close>

text \<open>
  A stub of the external tool that always exits 0 and writes the file named after
  \<^verbatim>\<open>--output\<close>, a directory of targets holding two images, a text file and a
  subdirectory, and an installation under \<^verbatim>\<open>/opt/facefusion\<close>.
\<close>

definition stub_run :: "string list \<Rightarrow> string \<Rightarrow> fs \<Rightarrow> run_outcome \<times> fs" where
  "stub_run cmd wd f =
     (case drop 8 cmd of
        [] \<Rightarrow> (Exited 2, f)
      | out # rest \<Rightarrow> (Exited 0, f(Path_of out \<mapsto> RegFile)))"

definition example_env :: env where
  "example_env =
     \<lparr>home = Path_of ''/home/user'', cwd = Path_of ''/work'',
      executable = ''/usr/bin/python3'', run = stub_run,
      sleep_interrupted = (\<lambda>idx. False)\<rparr>"

definition example_fs :: fs where
  "example_fs = map_of
     [(Path_of ''.'', Dir [''face.jpg'', ''targets'']),
      (Path_of ''face.jpg'', RegFile),
      (Path_of ''targets'', Dir [''b.png'', ''notes.txt'', ''sub.jpg'', ''a.JPG'']),
      (Path_of ''targets/a.JPG'', RegFile),
      (Path_of ''targets/b.png'', RegFile),
      (Path_of ''targets/notes.txt'', RegFile),
      (Path_of ''targets/sub.jpg'', Dir []),
      (Path_of ''/opt/facefusion'', Dir [''facefusion.py'']),
      (Path_of ''/opt/facefusion/facefusion.py'', RegFile)]"

definition example_batch :: batch where
  "example_batch =
     \<lparr>source_image = Path_of ''face.jpg'', target_dir = Path_of ''targets'',
      output_dir = Path_of ''out'', facefusion_path = Path_of ''/opt/facefusion'',
      execution_provider = ''cuda'', face_swapper_model = ''inswapper_128'',
      verbose = False\<rparr>"

definition example_args :: args where
  "example_args =
     \<lparr>arg_source = ''face.jpg'', arg_target_dir = ''targets'', arg_output_dir = ''out'',
      arg_facefusion_path = Some ''/opt/facefusion'', arg_execution_provider = ''cuda'',
      arg_face_swapper_model = ''inswapper_128'', arg_verbose = False\<rparr>"


text \<open>The same files once both outputs have been written, and no call of the tool yet.\<close>

definition example_world :: world where
  "example_world =
     \<lparr>files = example_fs(Path_of ''out'' \<mapsto> Dir [''face_to_a.JPG'', ''face_to_b.png''],
                         Path_of ''out/face_to_a.JPG'' \<mapsto> RegFile,
                         Path_of ''out/face_to_b.png'' \<mapsto> RegFile),
      invocations = []\<rparr>"

text \<open>
  A tool that exits 1 on \<^verbatim>\<open>a.JPG\<close>, exits 0 without writing anything on
  \<^verbatim>\<open>b.png\<close>, cannot be launched on \<^verbatim>\<open>c.bmp\<close>, and works on every other target; and a
  directory of four targets for it.
\<close>

definition flaky_run :: "string list \<Rightarrow> string \<Rightarrow> fs \<Rightarrow> run_outcome \<times> fs" where
  "flaky_run cmd wd f =
     (case drop 6 cmd of
        [] \<Rightarrow> (Exited 2, f)
      | target # rest \<Rightarrow>
          if target = ''targets/a.JPG'' then (Exited 1, f)
          else if target = ''targets/b.png'' then (Exited 0, f)
          else if target = ''targets/c.bmp'' then (Raised (Exn FileNotFoundError ''python3''), f)
          else stub_run cmd wd f)"

definition flaky_env :: env where
  "flaky_env = example_env\<lparr>run := flaky_run\<rparr>"

text \<open>A tool that exits 1 on \<^verbatim>\<open>b.png\<close> and works on every other target.\<close>

definition half_run :: "string list \<Rightarrow> string \<Rightarrow> fs \<Rightarrow> run_outcome \<times> fs" where
  "half_run cmd wd f =
     (case drop 6 cmd of
        [] \<Rightarrow> (Exited 2, f)
      | target # rest \<Rightarrow>
          if target = ''targets/b.png'' then (Exited 1, f) else stub_run cmd wd f)"

definition half_env :: env where
  "half_env = example_env\<lparr>run := half_run\<rparr>"

text \<open>A run that the user interrupts while the first job is waiting for the tool.\<close>

definition interrupted_env :: env where
  "interrupted_env =
     example_env\<lparr>run := (\<lambda>cmd wd f. (Raised (Exn KeyboardInterrupt []), f))\<rparr>"

definition four_targets_world :: world where
  "four_targets_world =
     \<lparr>files = example_fs
        (Path_of ''targets'' \<mapsto> Dir [''d.webp'', ''c.bmp'', ''b.png'', ''a.JPG''],
         Path_of ''targets/c.bmp'' \<mapsto> RegFile,
         Path_of ''targets/d.webp'' \<mapsto> RegFile,
         Path_of ''out'' \<mapsto> Dir []),
      invocations = []\<rparr>"


section \<open>Path lemmas\<close>

lemma stem_suffix_name: "stem_of p @ suffix_of p = name_of p"
  by (simp add: stem_of_def suffix_of_def Let_def)

lemma stem_of_name: "name_of p = name_of q \<Longrightarrow> stem_of p = stem_of q"
  by (simp add: stem_of_def)

lemma cparts_joinpath: "cparts (joinpath d n) = cparts d @ [n]"
  by (simp add: cparts_def joinpath_def)

lemma name_of_joinpath: "name_of (joinpath d n) = n"
  by (simp add: name_of_def joinpath_def)

lemma append_le_append: "(pre @ xs \<le> pre @ ys) = (xs \<le> (ys :: ('a::linorder) list))"
  by (induction pre) simp_all

text \<open>Entries of one directory that are in the order of their keys are in the order of their names.\<close>

lemma sorted_names_of_sorted_cparts:
  assumes "\<forall>x \<in> set xs. \<exists>n. x = joinpath d n"
    and "sorted (map cparts xs)"
  shows "sorted (map name_of xs)"
  using assms
proof (induction xs)
  case Nil
  then show ?case by simp
next
  case (Cons x xs)
  have "name_of x \<le> name_of y" if "y \<in> set xs" for y
  proof -
    from Cons.prems(1) that obtain n m where xy: "x = joinpath d n" "y = joinpath d m"
      by auto
    from Cons.prems(2) that have "cparts x \<le> cparts y"
      by auto
    with xy show ?thesis
      by (auto simp add: cparts_joinpath name_of_joinpath append_le_append)
  qed
  with Cons show ?case by auto
qed


section \<open>The output file name\<close>

text \<open>
  C1. For every source path and every target path, the output file name is the stem of
  the source, then \<^verbatim>\<open>_to_\<close>, then the stem of the target, then the extension of the
  target; it is a function of the two paths, and for one source two targets with distinct
  stems never get the same output file name.
\<close>

theorem output_filename_stem_to_stem:
  "output_filename self t = stem_of (source_image self) @ ''_to_'' @ stem_of t @ suffix_of t \<and>
   (stem_of t \<noteq> stem_of t' \<longrightarrow> output_filename self t \<noteq> output_filename self t')"
  using stem_of_name [of t t']
  by (auto simp add: output_filename_def stem_suffix_name)

theorem output_filename_stem_to_stem_witness:
  "output_filename (example_batch\<lparr>source_image := Path_of ''s.jpg''\<rparr>) (Path_of ''targets/t.png'')
     = ''s_to_t.png'' \<and>
   stem_of (Path_of ''targets/t.png'') \<noteq> stem_of (Path_of ''targets/u.png'') \<and>
   output_filename (example_batch\<lparr>source_image := Path_of ''s.jpg''\<rparr>) (Path_of ''targets/t.png'')
     \<noteq> output_filename (example_batch\<lparr>source_image := Path_of ''s.jpg''\<rparr>) (Path_of ''targets/u.png'')"
proof -
  have s: "stem_of (Path_of ''targets/t.png'') \<noteq> stem_of (Path_of ''targets/u.png'')"
    by code_simp
  have n: "output_filename (example_batch\<lparr>source_image := Path_of ''s.jpg''\<rparr>)
             (Path_of ''targets/t.png'') = ''s_to_t.png''"
    by code_simp
  from s n
    output_filename_stem_to_stem [of "example_batch\<lparr>source_image := Path_of ''s.jpg''\<rparr>"
      "Path_of ''targets/t.png''" "Path_of ''targets/u.png''"]
  show ?thesis by blast
qed


section \<open>The target enumerator returns the supported images, sorted\<close>

text \<open>
  C3. For every target directory, \<^verbatim>\<open>_get_target_images\<close> returns without an error; what
  it returns are exactly the entries of the directory that are regular files and whose
  extension, lowered, is one of \<^verbatim>\<open>.jpg .jpeg .png .bmp .tiff .webp\<close> (so no
  subdirectory and no other extension); each entry is returned once; the result is in the
  lexicographic order of the file names; and it is the empty list when no entry qualifies.
\<close>

theorem get_target_images_supported_sorted:
  assumes "f (target_dir self) = Some (Dir ns)"
  shows "\<exists>imgs. get_target_images f self = Inr imgs \<and>
     set imgs = {joinpath (target_dir self) n | n.
                   n \<in> set ns \<and> is_file f (joinpath (target_dir self) n) \<and>
                   lower (suffix_of (joinpath (target_dir self) n)) \<in> image_extensions} \<and>
     sorted (map name_of imgs) \<and>
     (distinct ns \<longrightarrow> distinct imgs) \<and>
     ((\<forall>n \<in> set ns. \<not> (is_file f (joinpath (target_dir self) n) \<and>
          lower (suffix_of (joinpath (target_dir self) n)) \<in> image_extensions))
        \<longrightarrow> imgs = [])"
proof -
  let ?d = "target_dir self"
  let ?imgs = "sort_key cparts (filter (is_target_image f) (map (joinpath ?d) ns))"
  have r: "get_target_images f self = Inr ?imgs"
    using assms by (simp add: get_target_images_def iterdir_def)
  have s: "set ?imgs = {joinpath ?d n | n. n \<in> set ns \<and> is_file f (joinpath ?d n) \<and>
                   lower (suffix_of (joinpath ?d n)) \<in> image_extensions}"
    by (auto simp add: is_target_image_def)
  have "\<forall>x \<in> set ?imgs. \<exists>n. x = joinpath ?d n"
    by auto
  then have o: "sorted (map name_of ?imgs)"
    by (rule sorted_names_of_sorted_cparts) (rule sorted_sort_key)
  have inj: "inj_on (joinpath ?d) (set ns)"
    by (rule inj_onI) (simp add: joinpath_def)
  have d: "distinct ns \<longrightarrow> distinct ?imgs"
    by (simp add: distinct_map inj)
  have e: "(\<forall>n \<in> set ns. \<not> (is_file f (joinpath ?d n) \<and>
          lower (suffix_of (joinpath ?d n)) \<in> image_extensions)) \<longrightarrow> ?imgs = []"
  proof
    assume "\<forall>n \<in> set ns. \<not> (is_file f (joinpath ?d n) \<and>
          lower (suffix_of (joinpath ?d n)) \<in> image_extensions)"
    then have "filter (is_target_image f) (map (joinpath ?d) ns) = []"
      by (simp add: filter_empty_conv is_target_image_def)
    then show "?imgs = []" by simp
  qed
  show ?thesis
  proof (intro exI conjI)
    show "get_target_images f self = Inr ?imgs" by (rule r)
  qed (rule s o d e)+
qed

theorem get_target_images_supported_sorted_witness:
  "example_fs (target_dir example_batch)
     = Some (Dir [''b.png'', ''notes.txt'', ''sub.jpg'', ''a.JPG'']) \<and>
   get_target_images example_fs example_batch
     = Inr [Path_of ''targets/a.JPG'', Path_of ''targets/b.png''] \<and>
   sorted [''a.JPG'', ''b.png''] \<and>
   get_target_images (example_fs(Path_of ''targets'' \<mapsto> Dir [''notes.txt''])) example_batch
     = Inr []"
proof -
  have h: "example_fs (target_dir example_batch)
             = Some (Dir [''b.png'', ''notes.txt'', ''sub.jpg'', ''a.JPG''])"
    by code_simp
  have ev: "get_target_images example_fs example_batch
              = Inr [Path_of ''targets/a.JPG'', Path_of ''targets/b.png'']"
    by code_simp
  have nm: "map name_of [Path_of ''targets/a.JPG'', Path_of ''targets/b.png'']
              = [''a.JPG'', ''b.png'']"
    by code_simp
  have em: "get_target_images (example_fs(Path_of ''targets'' \<mapsto> Dir [''notes.txt'']))
              example_batch = Inr []"
    by code_simp
  from get_target_images_supported_sorted [of example_fs example_batch, OF h]
  obtain imgs where a: "get_target_images example_fs example_batch = Inr imgs"
    and b: "sorted (map name_of imgs)"
    by (elim exE conjE)
  from a ev have "imgs = [Path_of ''targets/a.JPG'', Path_of ''targets/b.png'']"
    by simp
  with b nm have "sorted [''a.JPG'', ''b.png'']"
    by simp
  with h ev em show ?thesis
    by (intro conjI)
qed


section \<open>The command line of one job\<close>

text \<open>
  C6. The command is a function of the interpreter, the installation path, the source,
  the target, the output path, the model and the provider, and of nothing else. Its first
  sixteen arguments are, in this order, the interpreter, the entry point, \<^verbatim>\<open>headless-run\<close>,
  \<^verbatim>\<open>--source\<close> and the source, \<^verbatim>\<open>--target\<close> and the target, \<^verbatim>\<open>--output\<close> and the
  output, \<^verbatim>\<open>--processors face_swapper\<close>, the model, the provider and
  \<^verbatim>\<open>--skip-download\<close>. When the provider is \<^verbatim>\<open>cuda\<close>, the two arguments
  \<^verbatim>\<open>--execution-device-id 0\<close> follow, and for every other provider nothing follows.
\<close>

theorem build_command_arguments:
  "take 16 (build_command E self t out) =
     [executable E, str_of (joinpath (facefusion_path self) ''facefusion.py''), ''headless-run'',
      ''--source'', str_of (source_image self), ''--target'', str_of t, ''--output'', str_of out,
      ''--processors'', ''face_swapper'', ''--face-swapper-model'', face_swapper_model self,
      ''--execution-providers'', execution_provider self, ''--skip-download''] \<and>
   (execution_provider self = ''cuda'' \<longrightarrow>
      drop 16 (build_command E self t out) = [''--execution-device-id'', ''0'']) \<and>
   (execution_provider self \<noteq> ''cuda'' \<longrightarrow> drop 16 (build_command E self t out) = []) \<and>
   (executable E = executable E' \<and> facefusion_path self = facefusion_path self' \<and>
    source_image self = source_image self' \<and> face_swapper_model self = face_swapper_model self' \<and>
    execution_provider self = execution_provider self'
      \<longrightarrow> build_command E self t out = build_command E' self' t out)"
  by (simp add: build_command_def Let_def)

theorem build_command_arguments_witness:
  "execution_provider example_batch = ''cuda'' \<and>
   build_command example_env example_batch (Path_of ''targets/b.png'')
       (output_path example_batch (Path_of ''targets/b.png'')) =
     [''/usr/bin/python3'', ''/opt/facefusion/facefusion.py'', ''headless-run'',
      ''--source'', ''face.jpg'', ''--target'', ''targets/b.png'',
      ''--output'', ''out/face_to_b.png'', ''--processors'', ''face_swapper'',
      ''--face-swapper-model'', ''inswapper_128'', ''--execution-providers'', ''cuda'',
      ''--skip-download'', ''--execution-device-id'', ''0''] \<and>
   execution_provider (example_batch\<lparr>execution_provider := ''rocm''\<rparr>) \<noteq> ''cuda'' \<and>
   drop 16 (build_command example_env (example_batch\<lparr>execution_provider := ''rocm''\<rparr>)
       (Path_of ''targets/b.png'') (output_path example_batch (Path_of ''targets/b.png''))) = []"
proof -
  have c: "execution_provider example_batch = ''cuda''"
    by code_simp
  have r: "execution_provider (example_batch\<lparr>execution_provider := ''rocm''\<rparr>) \<noteq> ''cuda''"
    by code_simp
  have v: "build_command example_env example_batch (Path_of ''targets/b.png'')
       (output_path example_batch (Path_of ''targets/b.png'')) =
     [''/usr/bin/python3'', ''/opt/facefusion/facefusion.py'', ''headless-run'',
      ''--source'', ''face.jpg'', ''--target'', ''targets/b.png'',
      ''--output'', ''out/face_to_b.png'', ''--processors'', ''face_swapper'',
      ''--face-swapper-model'', ''inswapper_128'', ''--execution-providers'', ''cuda'',
      ''--skip-download'', ''--execution-device-id'', ''0'']"
    by code_simp
  from r build_command_arguments
      [of example_env "example_batch\<lparr>execution_provider := ''rocm''\<rparr>"
          "Path_of ''targets/b.png''" "output_path example_batch (Path_of ''targets/b.png'')"
          example_env example_batch]
  have "drop 16 (build_command example_env (example_batch\<lparr>execution_provider := ''rocm''\<rparr>)
       (Path_of ''targets/b.png'') (output_path example_batch (Path_of ''targets/b.png''))) = []"
    by blast
  with c r v show ?thesis
    by (intro conjI)
qed


section \<open>An output that exists already\<close>




section \<open>The outcome of a job, and the jobs after a failed one\<close>

lemma psi_returns:
  assumes "\<forall>cmd wd g e g'. run E cmd wd g = (Raised e, g') \<longrightarrow> is_Exception e"
  shows "\<exists>ok w1. process_single_image E self t w = (Inr ok, w1)"
proof -
  obtain outcome f' where
    r: "run E (build_command E self t (output_path self t)) (str_of (facefusion_path self))
          (files w) = (outcome, f')"
    by (cases "run E (build_command E self t (output_path self t))
                 (str_of (facefusion_path self)) (files w)")
  show ?thesis
  proof (cases outcome)
    case (Exited rc)
    with r show ?thesis
      by (auto simp add: process_single_image_def Let_def)
  next
    case (Raised e)
    with r assms have "is_Exception e"
      by blast
    with r Raised show ?thesis
      by (auto simp add: process_single_image_def Let_def)
  qed
qed

lemma batch_loop_counts:
  assumes "\<forall>cmd wd g e g'. run E cmd wd g = (Raised e, g') \<longrightarrow> is_Exception e"
    and "\<forall>idx. \<not> sleep_interrupted E idx"
  shows "\<exists>s' fl' w'. batch_loop E self n xs s fl w = (Inr (s', fl'), w') \<and>
           s' + fl' = s + fl + length xs"
proof (induction xs arbitrary: s fl w)
  case Nil
  then show ?case by simp
next
  case (Cons x xs)
  obtain idx t where x: "x = (idx, t)" by (cases x)
  from psi_returns [OF assms(1)] obtain ok w1
    where p: "process_single_image E self t w = (Inr ok, w1)" by blast
  from Cons.IH [of "if ok then s + 1 else s" "if ok then fl else fl + 1" w1]
  obtain s' fl' w' where
    r: "batch_loop E self n xs (if ok then s + 1 else s) (if ok then fl else fl + 1) w1
          = (Inr (s', fl'), w')"
    and c: "s' + fl' = (if ok then s + 1 else s) + (if ok then fl else fl + 1) + length xs"
    by blast
  from assms(2) x p r c show ?case
    by (auto simp add: Let_def)
qed

lemma flaky_run_no_interrupt: "flaky_run cmd wd g = (Raised e, g') \<Longrightarrow> is_Exception e"
  by (auto simp add: flaky_run_def stub_run_def is_Exception_def split: list.splits if_splits)

text \<open>
  C5. For a job that calls the tool: exit code zero with the output file present
  afterwards is a success; exit code zero with the output file missing is a failure; a
  nonzero exit code is a failure; and a call that raises an exception instead of
  returning (the process could not be launched) is a failure. After a failed job the loop
  of the batch controller goes on with the remaining targets, the failure counted; and
  when no interrupt arrives, the batch returns its two counts, which add up to the number
  of targets.
\<close>

theorem job_classification_and_continuation:
  "(\<not> (exists_p (files w) (output_path self t) \<and> \<not> verbose self) \<and>
    run E (build_command E self t (output_path self t)) (str_of (facefusion_path self)) (files w)
      = (outcome, f')
    \<longrightarrow> (outcome = Exited 0 \<and> exists_p f' (output_path self t)
            \<longrightarrow> fst (process_single_image E self t w) = Inr True) \<and>
         (outcome = Exited 0 \<and> \<not> exists_p f' (output_path self t)
            \<longrightarrow> fst (process_single_image E self t w) = Inr False) \<and>
         (outcome = Exited rc \<and> rc \<noteq> 0
            \<longrightarrow> fst (process_single_image E self t w) = Inr False) \<and>
         (outcome = Raised e \<and> is_Exception e
            \<longrightarrow> fst (process_single_image E self t w) = Inr False)) \<and>
   (process_single_image E self t w = (Inr False, w1) \<and> \<not> (idx < n \<and> sleep_interrupted E idx)
    \<longrightarrow> batch_loop E self n ((idx, t) # rest) s fl w = batch_loop E self n rest s (fl + 1) w1) \<and>
   ((\<forall>cmd wd g e g'. run E cmd wd g = (Raised e, g') \<longrightarrow> is_Exception e) \<and>
    (\<forall>idx. \<not> sleep_interrupted E idx) \<and>
    get_target_images (files w) self = Inr ts
    \<longrightarrow> (\<exists>s' fl' w'. process_batch E self w = (Inr (s', fl'), w') \<and> s' + fl' = length ts))"
proof (intro conjI impI)
  assume "process_single_image E self t w = (Inr False, w1) \<and> \<not> (idx < n \<and> sleep_interrupted E idx)"
  then show "batch_loop E self n ((idx, t) # rest) s fl w = batch_loop E self n rest s (fl + 1) w1"
    by (auto simp add: Let_def)
next
  assume a: "(\<forall>cmd wd g e g'. run E cmd wd g = (Raised e, g') \<longrightarrow> is_Exception e) \<and>
    (\<forall>idx. \<not> sleep_interrupted E idx) \<and>
    get_target_images (files w) self = Inr ts"
  then have 1: "\<forall>cmd wd g e g'. run E cmd wd g = (Raised e, g') \<longrightarrow> is_Exception e"
    and 2: "\<forall>idx. \<not> sleep_interrupted E idx"
    and 3: "get_target_images (files w) self = Inr ts"
    by blast+
  from batch_loop_counts [OF 1 2, of self "length ts" "enumerate 1 ts" 0 0 w] 3
  show "\<exists>s' fl' w'. process_batch E self w = (Inr (s', fl'), w') \<and> s' + fl' = length ts"
    by (simp add: process_batch_def)
qed (auto simp add: process_single_image_def Let_def)

theorem job_classification_and_continuation_witness:
  "get_target_images (files four_targets_world) example_batch =
     Inr [Path_of ''targets/a.JPG'', Path_of ''targets/b.png'',
          Path_of ''targets/c.bmp'', Path_of ''targets/d.webp''] \<and>
   map (\<lambda>t. fst (process_single_image flaky_env example_batch t four_targets_world))
     [Path_of ''targets/a.JPG'', Path_of ''targets/b.png'',
      Path_of ''targets/c.bmp'', Path_of ''targets/d.webp'']
     = [Inr False, Inr False, Inr False, Inr True] \<and>
   fst (process_batch flaky_env example_batch four_targets_world) = Inr (1, 3) \<and>
   length (invocations (snd (process_batch flaky_env example_batch four_targets_world))) = 4"
proof -
  have g: "get_target_images (files four_targets_world) example_batch =
     Inr [Path_of ''targets/a.JPG'', Path_of ''targets/b.png'',
          Path_of ''targets/c.bmp'', Path_of ''targets/d.webp'']"
    by code_simp
  have m: "map (\<lambda>t. fst (process_single_image flaky_env example_batch t four_targets_world))
     [Path_of ''targets/a.JPG'', Path_of ''targets/b.png'',
      Path_of ''targets/c.bmp'', Path_of ''targets/d.webp'']
     = [Inr False, Inr False, Inr False, Inr True]"
    by code_simp
  have b: "fst (process_batch flaky_env example_batch four_targets_world) = Inr (1, 3)"
    by code_simp
  have i: "length (invocations (snd (process_batch flaky_env example_batch four_targets_world))) = 4"
    by code_simp
  have r: "\<forall>cmd wd g e g'. run flaky_env cmd wd g = (Raised e, g') \<longrightarrow> is_Exception e"
    by (auto simp add: flaky_env_def dest: flaky_run_no_interrupt)
  have z: "\<forall>idx. \<not> sleep_interrupted flaky_env idx"
    by (simp add: flaky_env_def example_env_def)
  from r z g have h:
    "(\<forall>cmd wd g e g'. run flaky_env cmd wd g = (Raised e, g') \<longrightarrow> is_Exception e) \<and>
     (\<forall>idx. \<not> sleep_interrupted flaky_env idx) \<and>
     get_target_images (files four_targets_world) example_batch =
       Inr [Path_of ''targets/a.JPG'', Path_of ''targets/b.png'',
            Path_of ''targets/c.bmp'', Path_of ''targets/d.webp'']"
    by (intro conjI)
  from job_classification_and_continuation
    [where E = flaky_env and self = example_batch and w = four_targets_world
       and ts = "[Path_of ''targets/a.JPG'', Path_of ''targets/b.png'',
                  Path_of ''targets/c.bmp'', Path_of ''targets/d.webp'']",
     THEN conjunct2, THEN conjunct2, THEN mp, OF h]
  obtain s' fl' w' where
    "process_batch flaky_env example_batch four_targets_world = (Inr (s', fl'), w')"
    "s' + fl' = length [Path_of ''targets/a.JPG'', Path_of ''targets/b.png'',
                  Path_of ''targets/c.bmp'', Path_of ''targets/d.webp'']"
    by (elim exE conjE)
  with g m b i show ?thesis
    by (intro conjI)
qed


section \<open>The installation locator on its default candidates\<close>

lemma find_loop_match_unassigned:
  "\<exists>p \<in> set ps. exists_p f p \<and> exists_p f (joinpath p ''facefusion.py'')
     \<Longrightarrow> find_loop f None ps = Some (Inl (Exn AttributeError ''verbose''))"
  by (induction ps) (auto simp add: getattr_verbose_def)

lemma find_loop_no_match:
  "\<forall>p \<in> set ps. \<not> (exists_p f p \<and> exists_p f (joinpath p ''facefusion.py''))
     \<Longrightarrow> find_loop f v ps = None"
  by (induction ps) auto

text \<open>With the attribute assigned, the loop returns the first candidate that matches.\<close>

lemma find_loop_first_match:
  assumes "\<forall>q \<in> set qs. \<not> (exists_p f q \<and> exists_p f (joinpath q ''facefusion.py''))"
    and "exists_p f p \<and> exists_p f (joinpath p ''facefusion.py'')"
  shows "find_loop f (Some b) (qs @ p # ps) = Some (Inr p)"
  using assms by (induction qs) (auto simp add: getattr_verbose_def)

text \<open>
  C2. The specification has construction, with no explicit installation path, succeed
  with the first default candidate that exists and holds \<^verbatim>\<open>facefusion.py\<close>. The code
  does not do that: whenever some candidate matches, \<^verbatim>\<open>_find_facefusion\<close> reads
  \<^verbatim>\<open>self.verbose\<close> before \<^verbatim>\<open>__init__\<close> has assigned it, and construction ends with
  \<^verbatim>\<open>AttributeError\<close>, the files untouched.
\<close>

theorem auto_detect_raises_attribute_error:
  assumes "facefusion_path_arg = None \<or> facefusion_path_arg = Some []"
    and "\<exists>p \<in> set (possible_paths E).
           exists_p f p \<and> exists_p f (joinpath p ''facefusion.py'')"
  shows "init E source_image_arg target_dir_arg output_dir_arg facefusion_path_arg
           execution_provider_arg face_swapper_model_arg verbose_arg f
         = (Inl (Exn AttributeError ''verbose''), f)"
  using assms(1) find_loop_match_unassigned [OF assms(2)]
  by (auto simp add: init_def find_facefusion_def)

theorem auto_detect_raises_attribute_error_witness:
  "map (\<lambda>p. exists_p example_fs p \<and> exists_p example_fs (joinpath p ''facefusion.py''))
       (possible_paths example_env) = [False, False, True, False] \<and>
   init example_env ''face.jpg'' ''targets'' ''out'' None ''cuda'' ''inswapper_128'' False example_fs
     = (Inl (Exn AttributeError ''verbose''), example_fs) \<and>
   find_facefusion example_env example_fs (Some False) = Inr (Path_of ''/opt/facefusion'') \<and>
   fst (init example_env ''face.jpg'' ''targets'' ''out'' (Some ''/opt/facefusion'') ''cuda''
          ''inswapper_128'' False example_fs) = Inr example_batch"
proof -
  have c: "map (\<lambda>p. exists_p example_fs p \<and> exists_p example_fs (joinpath p ''facefusion.py''))
       (possible_paths example_env) = [False, False, True, False]"
    by code_simp
  have m: "\<exists>p \<in> set (possible_paths example_env).
             exists_p example_fs p \<and> exists_p example_fs (joinpath p ''facefusion.py'')"
    by code_simp
  have l: "find_facefusion example_env example_fs (Some False) = Inr (Path_of ''/opt/facefusion'')"
    by code_simp
  have x: "fst (init example_env ''face.jpg'' ''targets'' ''out'' (Some ''/opt/facefusion'') ''cuda''
          ''inswapper_128'' False example_fs) = Inr example_batch"
    by code_simp
  have n: "(None :: string option) = None \<or> (None :: string option) = Some []"
    by simp
  from auto_detect_raises_attribute_error [OF n m] c l x show ?thesis
    by (intro conjI)
qed

text \<open>
  C9. The specification has the not-found error name every default candidate that was
  probed. When no candidate matches, \<^verbatim>\<open>_find_facefusion\<close> does raise \<^verbatim>\<open>FileNotFoundError\<close>, but
  of its four candidates the message names three: \<^verbatim>\<open>~/facefusion\<close>, \<^verbatim>\<open>./facefusion\<close> and
  \<^verbatim>\<open>/opt/facefusion\<close>. The fourth, \<^verbatim>\<open>projects/facefusion\<close> under the home directory, does
  not occur in it.
\<close>

theorem not_found_message_omits_fourth_candidate:
  assumes "\<forall>p \<in> set (possible_paths E).
             \<not> (exists_p f p \<and> exists_p f (joinpath p ''facefusion.py''))"
  shows "find_facefusion E f v = Inl (Exn FileNotFoundError not_found_message) \<and>
         possible_paths E ! 3 = joinpath (joinpath (home E) ''projects'') ''facefusion'' \<and>
         contains ''~/facefusion'' not_found_message \<and>
         contains ''./facefusion'' not_found_message \<and>
         contains ''/opt/facefusion'' not_found_message \<and>
         \<not> contains ''projects'' not_found_message"
proof -
  have 1: "find_facefusion E f v = Inl (Exn FileNotFoundError not_found_message)"
    using find_loop_no_match [OF assms] by (simp add: find_facefusion_def)
  have 2: "possible_paths E ! 3 = joinpath (joinpath (home E) ''projects'') ''facefusion''"
    by (simp add: possible_paths_def)
  have 3: "contains ''~/facefusion'' not_found_message"
    by code_simp
  have 4: "contains ''./facefusion'' not_found_message"
    by code_simp
  have 5: "contains ''/opt/facefusion'' not_found_message"
    by code_simp
  have 6: "\<not> contains ''projects'' not_found_message"
    by code_simp
  from 1 2 3 4 5 6 show ?thesis by (intro conjI)
qed

theorem not_found_message_omits_fourth_candidate_witness:
  "find_facefusion example_env (\<lambda>p. None) None = Inl (Exn FileNotFoundError not_found_message) \<and>
   map str_of (possible_paths example_env) =
     [''/home/user/facefusion'', ''/work/facefusion'', ''/opt/facefusion'',
      ''/home/user/projects/facefusion''] \<and>
   \<not> contains ''projects'' not_found_message"
proof -
  have h: "\<forall>p \<in> set (possible_paths example_env).
             \<not> (exists_p (\<lambda>p. None) p \<and> exists_p (\<lambda>p. None) (joinpath p ''facefusion.py''))"
    by (simp add: exists_p_def)
  have s: "map str_of (possible_paths example_env) =
     [''/home/user/facefusion'', ''/work/facefusion'', ''/opt/facefusion'',
      ''/home/user/projects/facefusion'']"
    by code_simp
  from not_found_message_omits_fourth_candidate [OF h, of None] s show ?thesis
    by (intro conjI) (elim conjE, assumption)+
qed


section \<open>What \<^verbatim>\<open>mkdir\<close> changes\<close>

lemma os_mkdir_frame:
  "os_mkdir f q = Inr f1 \<Longrightarrow> length (parts q) < length (parts x) \<Longrightarrow> f1 x = f x"
  by (auto simp add: os_mkdir_def parent_of_def split: if_splits option.splits node.splits)

lemma os_mkdir_is_dir: "os_mkdir f q = Inr f1 \<Longrightarrow> is_dir f1 q"
  by (auto simp add: os_mkdir_def is_dir_def split: if_splits option.splits node.splits)

lemma mkdir_frame:
  "mkdir parents f q = (r, f1) \<Longrightarrow> length (parts q) < length (parts x) \<Longrightarrow> f1 x = f x"
proof (induction parents f q arbitrary: r f1 rule: mkdir.induct)
  case (1 parents f p)
  show ?case
  proof (cases "os_mkdir f p")
    case (Inr f')
    with "1.prems" show ?thesis
      by (auto simp add: mkdir.simps [of parents f p] dest: os_mkdir_frame)
  next
    case (Inl e)
    show ?thesis
    proof (cases "kind e = FileNotFoundError \<and> parents \<and> parent_of p \<noteq> p")
      case False
      with Inl "1.prems" show ?thesis
        by (auto simp add: mkdir.simps [of parents f p] split: if_splits)
    next
      case True
      obtain r0 f0 where m: "mkdir True f (parent_of p) = (r0, f0)"
        by (cases "mkdir True f (parent_of p)")
      have u: "mkdir parents f p =
                 (case r0 of Inl e' \<Rightarrow> (Inl e', f0) | Inr u \<Rightarrow> mkdir False f0 p)"
        using Inl True m by (subst mkdir.simps) (simp split: sum.splits)
      have le: "length (parts (parent_of p)) < length (parts x)"
        using "1.prems"(2) by (simp add: parent_of_def)
      from "1.IH"(1) [OF Inl _ _ m le] True have f0: "f0 x = f x"
        by simp
      show ?thesis
      proof (cases r0)
        case (Inl e')
        with u "1.prems"(1) f0 show ?thesis
          by simp
      next
        case (Inr v)
        with u "1.prems"(1) have n: "mkdir False f0 p = (r, f1)"
          by simp
        from "1.IH"(2) [OF \<open>os_mkdir f p = Inl e\<close> _ _ m [symmetric] Inr n "1.prems"(2)] True
        have "f1 x = f0 x" by simp
        with f0 show ?thesis by simp
      qed
    qed
  qed
qed


lemma parent_of_shorter:
  "parent_of p \<noteq> p \<Longrightarrow> length (parts (parent_of p)) < length (parts p)"
proof -
  assume "parent_of p \<noteq> p"
  then have "parts p \<noteq> []"
    by (cases p) (auto simp add: parent_of_def)
  then have "0 < length (parts p)"
    by simp
  then show ?thesis
    by (simp add: parent_of_def)
qed

lemma os_mkdir_not_found:
  "os_mkdir f p = Inl e \<Longrightarrow> kind e = FileNotFoundError \<Longrightarrow> f p = None"
  by (auto simp add: os_mkdir_def split: if_splits option.splits node.splits)

lemma os_mkdir_into_dir:
  "f p = None \<Longrightarrow> is_dir f (parent_of p) \<Longrightarrow> \<exists>f'. os_mkdir f p = Inr f'"
  by (auto simp add: os_mkdir_def is_dir_def split: option.splits node.splits)

text \<open>
  A \<^verbatim>\<open>mkdir\<close> that raises leaves the files as they were, and one that returns leaves
  the path a directory.
\<close>

lemma mkdir_result:
  "mkdir parents f p = (r, f1) \<Longrightarrow> (case r of Inl e \<Rightarrow> f1 = f | Inr u \<Rightarrow> is_dir f1 p)"
proof (induction parents f p arbitrary: r f1 rule: mkdir.induct)
  case (1 parents f p)
  show ?case
  proof (cases "os_mkdir f p")
    case (Inr f')
    with "1.prems" show ?thesis
      by (auto simp add: mkdir.simps [of parents f p] dest: os_mkdir_is_dir)
  next
    case (Inl e)
    show ?thesis
    proof (cases "kind e = FileNotFoundError \<and> parents \<and> parent_of p \<noteq> p")
      case False
      with Inl "1.prems" show ?thesis
        by (auto simp add: mkdir.simps [of parents f p] split: if_splits)
    next
      case True
      obtain r0 f0 where m: "mkdir True f (parent_of p) = (r0, f0)"
        by (cases "mkdir True f (parent_of p)")
      have u: "mkdir parents f p =
                 (case r0 of Inl e' \<Rightarrow> (Inl e', f0) | Inr u \<Rightarrow> mkdir False f0 p)"
        using Inl True m by (subst mkdir.simps) (simp split: sum.splits)
      from "1.IH"(1) [OF Inl _ _ m] True
      have ih: "case r0 of Inl e \<Rightarrow> f0 = f | Inr u \<Rightarrow> is_dir f0 (parent_of p)"
        by simp
      show ?thesis
      proof (cases r0)
        case (Inl e')
        with u "1.prems" ih show ?thesis
          by simp
      next
        case (Inr v)
        with u "1.prems" have n: "mkdir False f0 p = (r, f1)"
          by simp
        from Inr ih have d: "is_dir f0 (parent_of p)"
          by simp
        from True have "length (parts (parent_of p)) < length (parts p)"
          by (simp add: parent_of_shorter)
        with m have "f0 p = f p"
          by (rule mkdir_frame)
        with os_mkdir_not_found [OF \<open>os_mkdir f p = Inl e\<close>] True have "f0 p = None"
          by simp
        with d obtain f' where o: "os_mkdir f0 p = Inr f'"
          using os_mkdir_into_dir by blast
        with n have "r = Inr () \<and> f1 = f'"
          by (simp add: mkdir.simps [of False f0 p])
        with o show ?thesis
          by (auto dest: os_mkdir_is_dir)
      qed
    qed
  qed
qed

lemma mkdir_existing_dir: "is_dir f p \<Longrightarrow> mkdir parents f p = (Inr (), f)"
  by (auto simp add: mkdir.simps [of parents f p] os_mkdir_def is_dir_def
           split: option.splits node.splits)

section \<open>The order of the validation checks\<close>

lemma find_loop_unassigned:
  "find_loop f None ps = None \<or> find_loop f None ps = Some (Inl (Exn AttributeError ''verbose''))"
  by (induction ps) (auto simp add: getattr_verbose_def)

text \<open>Called before \<^verbatim>\<open>self.verbose\<close> is assigned, the locator never returns a path.\<close>

lemma find_facefusion_unassigned:
  "\<exists>e. find_facefusion E f None = Inl e \<and> kind e \<noteq> KeyboardInterrupt"
  using find_loop_unassigned [of f "possible_paths E"]
  by (auto simp add: find_facefusion_def)

lemma validate_inputs_empty:
  "get_target_images f self = Inr [] \<Longrightarrow>
     \<exists>e. validate_inputs f self = Inl e \<and> kind e \<noteq> KeyboardInterrupt"
  by (simp add: validate_inputs_def)

lemma init_fails_without_images:
  assumes "target_dir self = Path_of target_dir_arg"
    and "get_target_images f self = Inr []"
  shows "\<exists>e. init E source_image_arg target_dir_arg output_dir_arg facefusion_path_arg
               execution_provider_arg face_swapper_model_arg verbose_arg f = (Inl e, f) \<and>
             kind e \<noteq> KeyboardInterrupt"
proof -
  let ?loc = "case facefusion_path_arg of
                Some (c # cs) \<Rightarrow> Inr (Path_of (c # cs))
              | _ \<Rightarrow> find_facefusion E f None"
  show ?thesis
  proof (cases ?loc)
    case (Inl e)
    then have "kind e \<noteq> KeyboardInterrupt"
      using find_facefusion_unassigned [of E f]
      by (auto split: option.splits list.splits)
    with Inl show ?thesis
      by (simp add: init_def)
  next
    case (Inr found)
    let ?self = "\<lparr>source_image = Path_of source_image_arg,
                  target_dir = Path_of target_dir_arg,
                  output_dir = Path_of output_dir_arg,
                  facefusion_path = found,
                  execution_provider = execution_provider_arg,
                  face_swapper_model = face_swapper_model_arg,
                  verbose = verbose_arg\<rparr>"
    from assms have "get_target_images f ?self = Inr []"
      by (simp add: get_target_images_def)
    then obtain e where "validate_inputs f ?self = Inl e" "kind e \<noteq> KeyboardInterrupt"
      using validate_inputs_empty by blast
    with Inr show ?thesis
      by (simp add: init_def)
  qed
qed

text \<open>
  C7. \<^verbatim>\<open>_validate_inputs\<close> checks that the source image exists, then that the target
  directory exists, then that \<^verbatim>\<open>facefusion.py\<close> exists under the installation path, then
  that the target directory holds a supported image. The first check that fails decides
  the error, whatever the later checks would find, and the four errors are different
  from one another. Validation passes only when all four hold. When the target directory
  holds no supported image, construction fails with the files as they were, and \<^verbatim>\<open>main\<close>
  exits with status 1 without a single call of the tool.
\<close>

theorem validation_order:
  "(\<not> exists_p f (source_image self) \<longrightarrow>
      validate_inputs f self =
        Inl (Exn FileNotFoundError (''Source image not found: '' @ str_of (source_image self)))) \<and>
   (exists_p f (source_image self) \<and> \<not> exists_p f (target_dir self) \<longrightarrow>
      validate_inputs f self =
        Inl (Exn FileNotFoundError (''Target directory not found: '' @ str_of (target_dir self)))) \<and>
   (exists_p f (source_image self) \<and> exists_p f (target_dir self) \<and>
    \<not> exists_p f (joinpath (facefusion_path self) ''facefusion.py'') \<longrightarrow>
      validate_inputs f self =
        Inl (Exn FileNotFoundError
               (''facefusion.py not found in: '' @ str_of (facefusion_path self)))) \<and>
   (exists_p f (source_image self) \<and> exists_p f (target_dir self) \<and>
    exists_p f (joinpath (facefusion_path self) ''facefusion.py'') \<and>
    get_target_images f self = Inr [] \<longrightarrow>
      validate_inputs f self =
        Inl (Exn ValueError
               (''No valid image files found in target directory: '' @ str_of (target_dir self)))) \<and>
   distinct
     [Exn FileNotFoundError (''Source image not found: '' @ str_of (source_image self)),
      Exn FileNotFoundError (''Target directory not found: '' @ str_of (target_dir self)),
      Exn FileNotFoundError (''facefusion.py not found in: '' @ str_of (facefusion_path self)),
      Exn ValueError
        (''No valid image files found in target directory: '' @ str_of (target_dir self))] \<and>
   (validate_inputs f self = Inr () \<longrightarrow>
      exists_p f (source_image self) \<and> exists_p f (target_dir self) \<and>
      exists_p f (joinpath (facefusion_path self) ''facefusion.py'') \<and>
      (\<exists>t ts. get_target_images f self = Inr (t # ts))) \<and>
   (target_dir self = Path_of (arg_target_dir a) \<and> get_target_images f self = Inr [] \<longrightarrow>
      (\<exists>e. init E (arg_source a) (arg_target_dir a) (arg_output_dir a) (arg_facefusion_path a)
              (arg_execution_provider a) (arg_face_swapper_model a) (arg_verbose a) f
            = (Inl e, f)) \<and>
      main E a f = (1, \<lparr>files = f, invocations = []\<rparr>))"
proof (intro conjI impI)
  assume a: "target_dir self = Path_of (arg_target_dir a) \<and> get_target_images f self = Inr []"
  then obtain e where
    i: "init E (arg_source a) (arg_target_dir a) (arg_output_dir a) (arg_facefusion_path a)
          (arg_execution_provider a) (arg_face_swapper_model a) (arg_verbose a) f = (Inl e, f)"
    and k: "kind e \<noteq> KeyboardInterrupt"
    using init_fails_without_images by blast
  from i show "\<exists>e. init E (arg_source a) (arg_target_dir a) (arg_output_dir a)
      (arg_facefusion_path a) (arg_execution_provider a) (arg_face_swapper_model a)
      (arg_verbose a) f = (Inl e, f)"
    by blast
  from i k show "main E a f = (1, \<lparr>files = f, invocations = []\<rparr>)"
    by (simp add: main_def exit_code_of_exn_def)
next
  assume "validate_inputs f self = Inr ()"
  then show "\<exists>t ts. get_target_images f self = Inr (t # ts)"
    by (auto simp add: validate_inputs_def neq_Nil_conv split: if_splits sum.splits)
qed (auto simp add: validate_inputs_def split: if_splits sum.splits)

theorem validation_order_witness:
  "validate_inputs example_fs
     (example_batch\<lparr>source_image := Path_of ''missing.jpg'', target_dir := Path_of ''nowhere'',
                     facefusion_path := Path_of ''/nowhere''\<rparr>)
     = Inl (Exn FileNotFoundError ''Source image not found: missing.jpg'') \<and>
   validate_inputs example_fs
     (example_batch\<lparr>target_dir := Path_of ''nowhere'', facefusion_path := Path_of ''/nowhere''\<rparr>)
     = Inl (Exn FileNotFoundError ''Target directory not found: nowhere'') \<and>
   validate_inputs example_fs (example_batch\<lparr>facefusion_path := Path_of ''/nowhere''\<rparr>)
     = Inl (Exn FileNotFoundError ''facefusion.py not found in: /nowhere'') \<and>
   validate_inputs (example_fs(Path_of ''targets'' \<mapsto> Dir [''notes.txt'', ''sub.jpg''])) example_batch
     = Inl (Exn ValueError ''No valid image files found in target directory: targets'') \<and>
   validate_inputs example_fs example_batch = Inr () \<and>
   fst (main example_env example_args
          (example_fs(Path_of ''targets'' \<mapsto> Dir [''notes.txt'', ''sub.jpg'']))) = 1 \<and>
   invocations (snd (main example_env example_args
          (example_fs(Path_of ''targets'' \<mapsto> Dir [''notes.txt'', ''sub.jpg''])))) = []"
proof -
  let ?f = "example_fs(Path_of ''targets'' \<mapsto> Dir [''notes.txt'', ''sub.jpg''])"
  have 1: "validate_inputs example_fs
     (example_batch\<lparr>source_image := Path_of ''missing.jpg'', target_dir := Path_of ''nowhere'',
                     facefusion_path := Path_of ''/nowhere''\<rparr>)
     = Inl (Exn FileNotFoundError ''Source image not found: missing.jpg'')"
    by code_simp
  have 2: "validate_inputs example_fs
     (example_batch\<lparr>target_dir := Path_of ''nowhere'', facefusion_path := Path_of ''/nowhere''\<rparr>)
     = Inl (Exn FileNotFoundError ''Target directory not found: nowhere'')"
    by code_simp
  have 3: "validate_inputs example_fs (example_batch\<lparr>facefusion_path := Path_of ''/nowhere''\<rparr>)
     = Inl (Exn FileNotFoundError ''facefusion.py not found in: /nowhere'')"
    by code_simp
  have 4: "validate_inputs ?f example_batch
     = Inl (Exn ValueError ''No valid image files found in target directory: targets'')"
    by code_simp
  have 5: "validate_inputs example_fs example_batch = Inr ()"
    by code_simp
  have t: "target_dir example_batch = Path_of (arg_target_dir example_args)"
    by code_simp
  have g: "get_target_images ?f example_batch = Inr []"
    by code_simp
  from t g validation_order [where f = ?f and self = example_batch and a = example_args
                               and E = example_env]
  have "main example_env example_args ?f = (1, \<lparr>files = ?f, invocations = []\<rparr>)"
    by blast
  then have 6: "fst (main example_env example_args ?f) = 1"
    and 7: "invocations (snd (main example_env example_args ?f)) = []"
    by simp_all
  from 1 2 3 4 5 6 7 show ?thesis
    by (intro conjI)
qed


section \<open>The exit status\<close>

lemma batch_loop_returned_counts:
  "batch_loop E self n xs s fl w = (Inr (s', fl'), w') \<Longrightarrow> s' + fl' = s + fl + length xs"
proof (induction xs arbitrary: s fl w)
  case Nil
  then show ?case by simp
next
  case (Cons x xs)
  obtain idx t where x: "x = (idx, t)" by (cases x)
  obtain r w1 where p: "process_single_image E self t w = (r, w1)"
    by (cases "process_single_image E self t w")
  show ?case
  proof (cases r)
    case (Inl e)
    with Cons.prems x p show ?thesis by simp
  next
    case (Inr ok)
    with Cons.prems x p
    have "batch_loop E self n xs (if ok then s + 1 else s) (if ok then fl else fl + 1) w1
            = (Inr (s', fl'), w')"
      by (simp add: Let_def split: if_splits)
    from Cons.IH [OF this] show ?thesis by (simp split: if_splits)
  qed
qed

lemma batch_loop_all_skipped:
  assumes "\<not> verbose self"
    and "\<forall>idx. \<not> sleep_interrupted E idx"
  shows "\<forall>x \<in> set xs. exists_p (files w) (output_path self (snd x))
           \<Longrightarrow> batch_loop E self n xs s fl w = (Inr (s + length xs, fl), w)"
proof (induction xs arbitrary: s)
  case Nil
  then show ?case by simp
next
  case (Cons x xs)
  obtain idx t where x: "x = (idx, t)" by (cases x)
  with Cons.prems assms(1) have "process_single_image E self t w = (Inr True, w)"
    by (simp add: process_single_image_def)
  with Cons x assms(2) show ?case
    by simp
qed

lemma batch_loop_tally:
  "batch_loop E self n xs s fl w = (Inr (s', fl'), w') \<Longrightarrow>
     length (run_jobs E self (map snd xs) w) = length xs \<and>
     s' = s + length (filter (\<lambda>r. r = Inr True) (run_jobs E self (map snd xs) w)) \<and>
     fl' = fl + length (filter (\<lambda>r. r = Inr False) (run_jobs E self (map snd xs) w))"
proof (induction xs arbitrary: s fl w)
  case Nil
  then show ?case by simp
next
  case (Cons x xs)
  obtain idx t where x: "x = (idx, t)" by (cases x)
  obtain r w1 where p: "process_single_image E self t w = (r, w1)"
    by (cases "process_single_image E self t w")
  show ?case
  proof (cases r)
    case (Inl e)
    with Cons.prems x p show ?thesis by simp
  next
    case (Inr ok)
    with Cons.prems x p
    have "batch_loop E self n xs (if ok then s + 1 else s) (if ok then fl else fl + 1) w1
            = (Inr (s', fl'), w')"
      by (simp add: Let_def split: if_splits)
    from Cons.IH [OF this] x p Inr show ?thesis
      by (cases ok) simp_all
  qed
qed

lemma run_jobs_all_returned:
  assumes "length (run_jobs E self ts w) = length ts"
    and "length (filter (\<lambda>r. r = Inr True) (run_jobs E self ts w))
         + length (filter (\<lambda>r. r = Inr False) (run_jobs E self ts w)) = length ts"
  shows "(length (filter (\<lambda>r. r = Inr False) (run_jobs E self ts w)) = 0)
         = (\<forall>r \<in> set (run_jobs E self ts w). r = Inr True)"
proof
  assume "length (filter (\<lambda>r. r = Inr False) (run_jobs E self ts w)) = 0"
  with assms have "length (filter (\<lambda>r. r = Inr True) (run_jobs E self ts w))
                     = length (run_jobs E self ts w)"
    by simp
  then show "\<forall>r \<in> set (run_jobs E self ts w). r = Inr True"
    by (metis (mono_tags, lifting) filter_id_conv length_filter_less less_irrefl)
next
  assume "\<forall>r \<in> set (run_jobs E self ts w). r = Inr True"
  then have "filter (\<lambda>r. r = Inr False) (run_jobs E self ts w) = []"
    by (auto simp add: filter_empty_conv)
  then show "length (filter (\<lambda>r. r = Inr False) (run_jobs E self ts w)) = 0"
    by simp
qed

lemma process_batch_tally:
  assumes "fst (process_batch E self w) = Inr (successful, failed)"
    and "get_target_images (files w) self = Inr ts"
  shows "length (run_jobs E self ts w) = length ts \<and>
         successful = length (filter (\<lambda>r. r = Inr True) (run_jobs E self ts w)) \<and>
         failed = length (filter (\<lambda>r. r = Inr False) (run_jobs E self ts w))"
proof -
  from assms obtain w' where
    "batch_loop E self (length ts) (enumerate 1 ts) 0 0 w = (Inr (successful, failed), w')"
    by (cases "batch_loop E self (length ts) (enumerate 1 ts) 0 0 w")
       (auto simp add: process_batch_def)
  from batch_loop_tally [OF this] show ?thesis
    by (simp add: map_snd_enumerate)
qed

lemma process_batch_returns_tally:
  assumes "\<forall>cmd wd g e g'. run E cmd wd g = (Raised e, g') \<longrightarrow> is_Exception e"
    and "\<forall>idx. \<not> sleep_interrupted E idx"
    and "get_target_images (files w) self = Inr ts"
  shows "fst (process_batch E self w) =
          Inr (length (filter (\<lambda>r. r = Inr True) (run_jobs E self ts w)),
               length (filter (\<lambda>r. r = Inr False) (run_jobs E self ts w)))"
proof -
  from batch_loop_counts [OF assms(1,2), of self "length ts" "enumerate 1 ts" 0 0 w] assms(3)
  obtain s' fl' where r: "fst (process_batch E self w) = Inr (s', fl')"
    by (auto simp add: process_batch_def)
  from process_batch_tally [OF r assms(3)] r show ?thesis
    by simp
qed

lemma exit_status_of_counts:
  "(fst (init E (arg_source a) (arg_target_dir a) (arg_output_dir a) (arg_facefusion_path a)
           (arg_execution_provider a) (arg_face_swapper_model a) (arg_verbose a) f) = Inr p \<and>
    fst (process_batch E p
           \<lparr>files = snd (init E (arg_source a) (arg_target_dir a) (arg_output_dir a)
                            (arg_facefusion_path a) (arg_execution_provider a)
                            (arg_face_swapper_model a) (arg_verbose a) f),
            invocations = []\<rparr>) = Inr (successful, failed)
    \<longrightarrow> fst (main E a f) = (if failed = 0 then 0 else 1)) \<and>
   (fst (init E (arg_source a) (arg_target_dir a) (arg_output_dir a) (arg_facefusion_path a)
           (arg_execution_provider a) (arg_face_swapper_model a) (arg_verbose a) f) = Inl e \<or>
    fst (init E (arg_source a) (arg_target_dir a) (arg_output_dir a) (arg_facefusion_path a)
           (arg_execution_provider a) (arg_face_swapper_model a) (arg_verbose a) f) = Inr p \<and>
    fst (process_batch E p
           \<lparr>files = snd (init E (arg_source a) (arg_target_dir a) (arg_output_dir a)
                            (arg_facefusion_path a) (arg_execution_provider a)
                            (arg_face_swapper_model a) (arg_verbose a) f),
            invocations = []\<rparr>) = Inl e
    \<longrightarrow> fst (main E a f) = (if kind e = KeyboardInterrupt then 130 else 1)) \<and>
   (fst (process_batch E self w) = Inr (successful, failed) \<and>
    get_target_images (files w) self = Inr ts
    \<longrightarrow> successful + failed = length ts) \<and>
   (\<not> verbose self \<and> (\<forall>idx. \<not> sleep_interrupted E idx) \<and>
    get_target_images (files w) self = Inr ts \<and>
    (\<forall>t \<in> set ts. exists_p (files w) (output_path self t))
    \<longrightarrow> process_batch E self w = (Inr (length ts, 0), w))"
proof (intro conjI impI)
  let ?i = "init E (arg_source a) (arg_target_dir a) (arg_output_dir a) (arg_facefusion_path a)
              (arg_execution_provider a) (arg_face_swapper_model a) (arg_verbose a) f"
  {
    assume "fst ?i = Inr p \<and>
      fst (process_batch E p \<lparr>files = snd ?i, invocations = []\<rparr>) = Inr (successful, failed)"
    then show "fst (main E a f) = (if failed = 0 then 0 else 1)"
      by (cases ?i; cases "process_batch E p \<lparr>files = snd ?i, invocations = []\<rparr>")
         (auto simp add: main_def)
  next
    assume "fst ?i = Inl e \<or>
      fst ?i = Inr p \<and> fst (process_batch E p \<lparr>files = snd ?i, invocations = []\<rparr>) = Inl e"
    then show "fst (main E a f) = (if kind e = KeyboardInterrupt then 130 else 1)"
      by (cases ?i; cases "process_batch E p \<lparr>files = snd ?i, invocations = []\<rparr>")
         (auto simp add: main_def exit_code_of_exn_def)
  }
next
  assume a: "fst (process_batch E self w) = Inr (successful, failed) \<and>
    get_target_images (files w) self = Inr ts"
  then obtain w' where
    "batch_loop E self (length ts) (enumerate 1 ts) 0 0 w = (Inr (successful, failed), w')"
    by (cases "batch_loop E self (length ts) (enumerate 1 ts) 0 0 w")
       (auto simp add: process_batch_def)
  from batch_loop_returned_counts [OF this] show "successful + failed = length ts"
    by simp
next
  assume a: "\<not> verbose self \<and> (\<forall>idx. \<not> sleep_interrupted E idx) \<and>
    get_target_images (files w) self = Inr ts \<and>
    (\<forall>t \<in> set ts. exists_p (files w) (output_path self t))"
  then have "\<forall>x \<in> set (enumerate 1 ts). exists_p (files w) (output_path self (snd x))"
    by (auto simp add: enumerate_eq_zip dest: set_zip_rightD)
  with a have "batch_loop E self (length ts) (enumerate 1 ts) 0 0 w
                 = (Inr (0 + length (enumerate 1 ts), 0), w)"
    by (intro batch_loop_all_skipped) blast+
  with a show "process_batch E self w = (Inr (length ts, 0), w)"
    by (simp add: process_batch_def)
qed

lemma half_run_no_interrupt: "half_run cmd wd g = (Raised e, g') \<Longrightarrow> is_Exception e"
  by (auto simp add: half_run_def stub_run_def is_Exception_def split: list.splits if_splits)

text \<open>
  C8. When construction succeeds and the batch returns its counts, the exit status is 0
  if the failure count is zero and 1 otherwise. When construction or the batch raises,
  the exit status is 130 for \<^verbatim>\<open>KeyboardInterrupt\<close> and 1 for every other exception. The
  pair the batch returns adds up to the number of targets, and a job that is skipped
  because its output exists counts as a success: with verbose mode off and every output
  present, the batch returns all targets as successful and none as failed, and leaves the
  state as it was. The pair is the tally of the jobs: every target has had its job, the
  first count is the number of jobs that returned success and the second the number of
  jobs that returned failure; when no interrupt arrives the batch returns this tally, and
  the exit status is 0 exactly when every job returned success.
\<close>

theorem exit_status:
  "(fst (init E (arg_source a) (arg_target_dir a) (arg_output_dir a) (arg_facefusion_path a)
           (arg_execution_provider a) (arg_face_swapper_model a) (arg_verbose a) f) = Inr p \<and>
    fst (process_batch E p
           \<lparr>files = snd (init E (arg_source a) (arg_target_dir a) (arg_output_dir a)
                            (arg_facefusion_path a) (arg_execution_provider a)
                            (arg_face_swapper_model a) (arg_verbose a) f),
            invocations = []\<rparr>) = Inr (successful, failed)
    \<longrightarrow> fst (main E a f) = (if failed = 0 then 0 else 1)) \<and>
   (fst (init E (arg_source a) (arg_target_dir a) (arg_output_dir a) (arg_facefusion_path a)
           (arg_execution_provider a) (arg_face_swapper_model a) (arg_verbose a) f) = Inl e \<or>
    fst (init E (arg_source a) (arg_target_dir a) (arg_output_dir a) (arg_facefusion_path a)
           (arg_execution_provider a) (arg_face_swapper_model a) (arg_verbose a) f) = Inr p \<and>
    fst (process_batch E p
           \<lparr>files = snd (init E (arg_source a) (arg_target_dir a) (arg_output_dir a)
                            (arg_facefusion_path a) (arg_execution_provider a)
                            (arg_face_swapper_model a) (arg_verbose a) f),
            invocations = []\<rparr>) = Inl e
    \<longrightarrow> fst (main E a f) = (if kind e = KeyboardInterrupt then 130 else 1)) \<and>
   (fst (process_batch E self w) = Inr (successful, failed) \<and>
    get_target_images (files w) self = Inr ts
    \<longrightarrow> successful + failed = length ts) \<and>
   (\<not> verbose self \<and> (\<forall>idx. \<not> sleep_interrupted E idx) \<and>
    get_target_images (files w) self = Inr ts \<and>
    (\<forall>t \<in> set ts. exists_p (files w) (output_path self t))
    \<longrightarrow> process_batch E self w = (Inr (length ts, 0), w)) \<and>
   (fst (process_batch E self w) = Inr (successful, failed) \<and>
    get_target_images (files w) self = Inr ts
    \<longrightarrow> length (run_jobs E self ts w) = length ts \<and>
        successful = length (filter (\<lambda>r. r = Inr True) (run_jobs E self ts w)) \<and>
        failed = length (filter (\<lambda>r. r = Inr False) (run_jobs E self ts w))) \<and>
   ((\<forall>cmd wd g e g'. run E cmd wd g = (Raised e, g') \<longrightarrow> is_Exception e) \<and>
    (\<forall>idx. \<not> sleep_interrupted E idx) \<and>
    get_target_images (files w) self = Inr ts
    \<longrightarrow> fst (process_batch E self w) =
          Inr (length (filter (\<lambda>r. r = Inr True) (run_jobs E self ts w)),
               length (filter (\<lambda>r. r = Inr False) (run_jobs E self ts w)))) \<and>
   ((\<forall>cmd wd g e g'. run E cmd wd g = (Raised e, g') \<longrightarrow> is_Exception e) \<and>
    (\<forall>idx. \<not> sleep_interrupted E idx) \<and>
    fst (init E (arg_source a) (arg_target_dir a) (arg_output_dir a) (arg_facefusion_path a)
           (arg_execution_provider a) (arg_face_swapper_model a) (arg_verbose a) f) = Inr p \<and>
    get_target_images (snd (init E (arg_source a) (arg_target_dir a) (arg_output_dir a) (arg_facefusion_path a)
           (arg_execution_provider a) (arg_face_swapper_model a) (arg_verbose a) f)) p = Inr ts
    \<longrightarrow> fst (main E a f) =
          (if \<forall>r \<in> set (run_jobs E p ts \<lparr>files = snd (init E (arg_source a) (arg_target_dir a) (arg_output_dir a) (arg_facefusion_path a)
           (arg_execution_provider a) (arg_face_swapper_model a) (arg_verbose a) f), invocations = []\<rparr>). r = Inr True
           then 0 else 1))"
proof -
  let ?i = "init E (arg_source a) (arg_target_dir a) (arg_output_dir a) (arg_facefusion_path a)
              (arg_execution_provider a) (arg_face_swapper_model a) (arg_verbose a) f"
  let ?w = "\<lparr>files = snd ?i, invocations = []\<rparr>"
  note o = exit_status_of_counts
             [where E = E and a = a and f = f and p = p and successful = successful
                and failed = failed and e = e and self = self and w = w and ts = ts]
  have t: "fst (process_batch E self w) = Inr (successful, failed) \<and>
      get_target_images (files w) self = Inr ts
      \<longrightarrow> length (run_jobs E self ts w) = length ts \<and>
          successful = length (filter (\<lambda>r. r = Inr True) (run_jobs E self ts w)) \<and>
          failed = length (filter (\<lambda>r. r = Inr False) (run_jobs E self ts w))"
    using process_batch_tally by blast
  have r: "(\<forall>cmd wd g e g'. run E cmd wd g = (Raised e, g') \<longrightarrow> is_Exception e) \<and>
      (\<forall>idx. \<not> sleep_interrupted E idx) \<and>
      get_target_images (files w) self = Inr ts
      \<longrightarrow> fst (process_batch E self w) =
            Inr (length (filter (\<lambda>r. r = Inr True) (run_jobs E self ts w)),
                 length (filter (\<lambda>r. r = Inr False) (run_jobs E self ts w)))"
    using process_batch_returns_tally by blast
  have x: "(\<forall>cmd wd g e g'. run E cmd wd g = (Raised e, g') \<longrightarrow> is_Exception e) \<and>
      (\<forall>idx. \<not> sleep_interrupted E idx) \<and>
      fst ?i = Inr p \<and>
      get_target_images (snd ?i) p = Inr ts
      \<longrightarrow> fst (main E a f) =
            (if \<forall>r \<in> set (run_jobs E p ts ?w). r = Inr True then 0 else 1)"
  proof
    assume h: "(\<forall>cmd wd g e g'. run E cmd wd g = (Raised e, g') \<longrightarrow> is_Exception e) \<and>
      (\<forall>idx. \<not> sleep_interrupted E idx) \<and>
      fst ?i = Inr p \<and>
      get_target_images (snd ?i) p = Inr ts"
    then have g: "get_target_images (files ?w) p = Inr ts"
      by simp
    let ?s = "length (filter (\<lambda>r. r = Inr True) (run_jobs E p ts ?w))"
    let ?fl = "length (filter (\<lambda>r. r = Inr False) (run_jobs E p ts ?w))"
    from h g have b: "fst (process_batch E p ?w) = Inr (?s, ?fl)"
      by (intro process_batch_returns_tally) blast+
    from process_batch_tally [OF b g] have l: "length (run_jobs E p ts ?w) = length ts"
      by simp
    from b g exit_status_of_counts [where E = E and self = p and w = ?w and ts = ts
                                       and successful = ?s and failed = ?fl]
    have c: "?s + ?fl = length ts"
      by blast
    from h b exit_status_of_counts [where E = E and a = a and f = f and p = p
                                       and successful = ?s and failed = ?fl]
    have m: "fst (main E a f) = (if ?fl = 0 then 0 else 1)"
      by blast
    from run_jobs_all_returned [OF l c] m
    show "fst (main E a f) = (if \<forall>r \<in> set (run_jobs E p ts ?w). r = Inr True then 0 else 1)"
      by simp
  qed
  from o t r x show ?thesis
    by (elim conjE) (intro conjI; assumption)
qed

theorem exit_status_witness:
  "fst (main example_env example_args example_fs) = 0 \<and>
   fst (main flaky_env example_args example_fs) = 1 \<and>
   fst (main example_env (example_args\<lparr>arg_source := ''missing.jpg''\<rparr>) example_fs) = 1 \<and>
   fst (main interrupted_env example_args example_fs) = 130 \<and>
   fst (process_batch example_env example_batch example_world) = Inr (2, 0) \<and>
   invocations (snd (process_batch example_env example_batch example_world)) = [] \<and>
   run_jobs half_env example_batch [Path_of ''targets/a.JPG'', Path_of ''targets/b.png'']
     \<lparr>files = example_fs(Path_of ''out'' \<mapsto> Dir []), invocations = []\<rparr>
     = [Inr True, Inr False] \<and>
   fst (process_batch half_env example_batch
          \<lparr>files = example_fs(Path_of ''out'' \<mapsto> Dir []), invocations = []\<rparr>) = Inr (1, 1) \<and>
   length (invocations (snd (process_batch half_env example_batch
          \<lparr>files = example_fs(Path_of ''out'' \<mapsto> Dir []), invocations = []\<rparr>))) = 2 \<and>
   fst (main half_env example_args example_fs) = 1"
proof -
  let ?i = "\<lambda>E a. init E (arg_source a) (arg_target_dir a) (arg_output_dir a)
              (arg_facefusion_path a) (arg_execution_provider a) (arg_face_swapper_model a)
              (arg_verbose a) example_fs"
  have i1: "fst (?i example_env example_args) = Inr example_batch"
    by code_simp
  have b1: "fst (process_batch example_env example_batch
                   \<lparr>files = snd (?i example_env example_args), invocations = []\<rparr>) = Inr (2, 0)"
    by code_simp
  from i1 b1 exit_status [where E = example_env and a = example_args and f = example_fs
                            and p = example_batch and successful = 2 and failed = 0]
  have 1: "fst (main example_env example_args example_fs) = 0"
    by simp
  have i2: "fst (?i flaky_env example_args) = Inr example_batch"
    by code_simp
  have b2: "fst (process_batch flaky_env example_batch
                   \<lparr>files = snd (?i flaky_env example_args), invocations = []\<rparr>) = Inr (0, 2)"
    by code_simp
  from i2 b2 exit_status [where E = flaky_env and a = example_args and f = example_fs
                            and p = example_batch and successful = 0 and failed = 2]
  have 2: "fst (main flaky_env example_args example_fs) = 1"
    by simp
  have i3: "fst (?i example_env (example_args\<lparr>arg_source := ''missing.jpg''\<rparr>))
              = Inl (Exn FileNotFoundError ''Source image not found: missing.jpg'')"
    by code_simp
  from i3 exit_status [where E = example_env and a = "example_args\<lparr>arg_source := ''missing.jpg''\<rparr>"
                         and f = example_fs
                         and e = "Exn FileNotFoundError ''Source image not found: missing.jpg''"]
  have 3: "fst (main example_env (example_args\<lparr>arg_source := ''missing.jpg''\<rparr>) example_fs) = 1"
    by simp
  have i4: "fst (?i interrupted_env example_args) = Inr example_batch"
    by code_simp
  have b4: "fst (process_batch interrupted_env example_batch
                   \<lparr>files = snd (?i interrupted_env example_args), invocations = []\<rparr>)
              = Inl (Exn KeyboardInterrupt [])"
    by code_simp
  from i4 b4 exit_status [where E = interrupted_env and a = example_args and f = example_fs
                            and p = example_batch and e = "Exn KeyboardInterrupt []"]
  have 4: "fst (main interrupted_env example_args example_fs) = 130"
    by simp
  have v: "\<not> verbose example_batch"
    by code_simp
  have z: "\<forall>idx. \<not> sleep_interrupted example_env idx"
    by (simp add: example_env_def)
  have g: "get_target_images (files example_world) example_batch
             = Inr [Path_of ''targets/a.JPG'', Path_of ''targets/b.png'']"
    by code_simp
  have x: "\<forall>t \<in> set [Path_of ''targets/a.JPG'', Path_of ''targets/b.png''].
             exists_p (files example_world) (output_path example_batch t)"
    by code_simp
  have n: "invocations example_world = []"
    by code_simp
  from v z g x exit_status [where E = example_env and self = example_batch and w = example_world
                              and ts = "[Path_of ''targets/a.JPG'', Path_of ''targets/b.png'']"]
  have "process_batch example_env example_batch example_world = (Inr (2, 0), example_world)"
    by simp
  with n have 5: "fst (process_batch example_env example_batch example_world) = Inr (2, 0)"
    and 6: "invocations (snd (process_batch example_env example_batch example_world)) = []"
    by simp_all
  let ?w = "\<lparr>files = example_fs(Path_of ''out'' \<mapsto> Dir []), invocations = []\<rparr>"
  have hr: "\<forall>cmd wd g e g'. run half_env cmd wd g = (Raised e, g') \<longrightarrow> is_Exception e"
    by (auto simp add: half_env_def dest: half_run_no_interrupt)
  have hz: "\<forall>idx. \<not> sleep_interrupted half_env idx"
    by (simp add: half_env_def example_env_def)
  have hg: "get_target_images (files ?w) example_batch
              = Inr [Path_of ''targets/a.JPG'', Path_of ''targets/b.png'']"
    by code_simp
  have 7: "run_jobs half_env example_batch [Path_of ''targets/a.JPG'', Path_of ''targets/b.png'']
             ?w = [Inr True, Inr False]"
    by code_simp
  from hr hz hg exit_status [where E = half_env and self = example_batch and w = ?w
                               and ts = "[Path_of ''targets/a.JPG'', Path_of ''targets/b.png'']"]
  have "fst (process_batch half_env example_batch ?w) =
          Inr (length (filter (\<lambda>r. r = Inr True)
                 (run_jobs half_env example_batch
                    [Path_of ''targets/a.JPG'', Path_of ''targets/b.png''] ?w)),
               length (filter (\<lambda>r. r = Inr False)
                 (run_jobs half_env example_batch
                    [Path_of ''targets/a.JPG'', Path_of ''targets/b.png''] ?w)))"
    by blast
  with 7 have 8: "fst (process_batch half_env example_batch ?w) = Inr (1, 1)"
    by simp
  have 9: "length (invocations (snd (process_batch half_env example_batch ?w))) = 2"
    by code_simp
  have i5: "fst (?i half_env example_args) = Inr example_batch"
    by code_simp
  have g5: "get_target_images (snd (?i half_env example_args)) example_batch
              = Inr [Path_of ''targets/a.JPG'', Path_of ''targets/b.png'']"
    by code_simp
  have j5: "run_jobs half_env example_batch [Path_of ''targets/a.JPG'', Path_of ''targets/b.png'']
              \<lparr>files = snd (?i half_env example_args), invocations = []\<rparr>
              = [Inr True, Inr False]"
    by code_simp
  from hr hz i5 g5 exit_status [where E = half_env and a = example_args and f = example_fs
                                  and p = example_batch
                                  and ts = "[Path_of ''targets/a.JPG'', Path_of ''targets/b.png'']"]
  have "fst (main half_env example_args example_fs) =
          (if \<forall>r \<in> set (run_jobs half_env example_batch
                            [Path_of ''targets/a.JPG'', Path_of ''targets/b.png'']
                            \<lparr>files = snd (?i half_env example_args), invocations = []\<rparr>).
                r = Inr True
           then 0 else 1)"
    by blast
  with j5 have 10: "fst (main half_env example_args example_fs) = 1"
    by simp
  from 1 2 3 4 5 6 7 8 9 10 show ?thesis
    by (intro conjI)
qed


section \<open>Construction changes the files only after validation\<close>

text \<open>
  C10. When construction fails, whatever the reason, the files are as they were before.
  When it succeeds, validation has passed on the files as they were, and the files
  afterwards are those that \<^verbatim>\<open>mkdir(parents=True, exist_ok=True)\<close> of the output directory
  leaves: the output directory is a directory, and nothing has changed if it was one
  already.
\<close>

theorem construction_atomic:
  "(fst (init E source_image_arg target_dir_arg output_dir_arg facefusion_path_arg
           execution_provider_arg face_swapper_model_arg verbose_arg f) = Inl e
    \<longrightarrow> snd (init E source_image_arg target_dir_arg output_dir_arg facefusion_path_arg
                execution_provider_arg face_swapper_model_arg verbose_arg f) = f) \<and>
   (init E source_image_arg target_dir_arg output_dir_arg facefusion_path_arg
           execution_provider_arg face_swapper_model_arg verbose_arg f = (Inr self, f')
    \<longrightarrow> validate_inputs f self = Inr () \<and>
        output_dir self = Path_of output_dir_arg \<and>
        mkdir True f (Path_of output_dir_arg) = (Inr (), f') \<and>
        is_dir f' (Path_of output_dir_arg) \<and>
        (is_dir f (Path_of output_dir_arg) \<longrightarrow> f' = f))"
proof (intro conjI impI)
  let ?loc = "case facefusion_path_arg of
                Some (c # cs) \<Rightarrow> Inr (Path_of (c # cs))
              | _ \<Rightarrow> find_facefusion E f None"
  let ?i = "init E source_image_arg target_dir_arg output_dir_arg facefusion_path_arg
              execution_provider_arg face_swapper_model_arg verbose_arg f"
  assume a: "fst ?i = Inl e"
  show "snd ?i = f"
  proof (cases ?loc)
    case (Inl e0)
    then show ?thesis by (simp add: init_def)
  next
    case (Inr found)
    let ?self = "\<lparr>source_image = Path_of source_image_arg,
                  target_dir = Path_of target_dir_arg,
                  output_dir = Path_of output_dir_arg,
                  facefusion_path = found,
                  execution_provider = execution_provider_arg,
                  face_swapper_model = face_swapper_model_arg,
                  verbose = verbose_arg\<rparr>"
    show ?thesis
    proof (cases "validate_inputs f ?self")
      case (Inl e1)
      with Inr show ?thesis by (simp add: init_def)
    next
      case v: (Inr u)
      obtain r f1 where m: "mkdir True f (Path_of output_dir_arg) = (r, f1)"
        by (cases "mkdir True f (Path_of output_dir_arg)")
      with Inr v have i: "?i = (case r of Inl e \<Rightarrow> (Inl e, f1) | Inr u \<Rightarrow> (Inr ?self, f1))"
        by (simp add: init_def prepare_output_dir_def split: sum.splits)
      with a obtain e2 where "r = Inl e2"
        by (cases r) auto
      with mkdir_result [OF m] i show ?thesis
        by simp
    qed
  qed
qed (auto simp add: init_def prepare_output_dir_def Let_def mkdir_existing_dir
          split: sum.splits prod.splits dest: mkdir_result)

theorem construction_atomic_witness:
  "fst (init example_env ''face.jpg'' ''nowhere'' ''out/deep'' (Some ''/opt/facefusion'')
          ''cuda'' ''inswapper_128'' False example_fs)
     = Inl (Exn FileNotFoundError ''Target directory not found: nowhere'') \<and>
   snd (init example_env ''face.jpg'' ''nowhere'' ''out/deep'' (Some ''/opt/facefusion'')
          ''cuda'' ''inswapper_128'' False example_fs) = example_fs \<and>
   map example_fs [Path_of ''.'', Path_of ''out'', Path_of ''out/deep'']
     = [Some (Dir [''face.jpg'', ''targets'']), None, None] \<and>
   fst (init example_env ''face.jpg'' ''targets'' ''out/deep'' (Some ''/opt/facefusion'')
          ''cuda'' ''inswapper_128'' False example_fs)
     = Inr (example_batch\<lparr>output_dir := Path_of ''out/deep''\<rparr>) \<and>
   map (snd (init example_env ''face.jpg'' ''targets'' ''out/deep'' (Some ''/opt/facefusion'')
               ''cuda'' ''inswapper_128'' False example_fs))
       [Path_of ''.'', Path_of ''out'', Path_of ''out/deep'']
     = [Some (Dir [''face.jpg'', ''targets'', ''out'']), Some (Dir [''deep'']), Some (Dir [])] \<and>
   is_dir (snd (init example_env ''face.jpg'' ''targets'' ''out/deep'' (Some ''/opt/facefusion'')
                  ''cuda'' ''inswapper_128'' False example_fs)) (Path_of ''out/deep'')"
proof -
  let ?bad = "init example_env ''face.jpg'' ''nowhere'' ''out/deep'' (Some ''/opt/facefusion'')
                ''cuda'' ''inswapper_128'' False example_fs"
  let ?good = "init example_env ''face.jpg'' ''targets'' ''out/deep'' (Some ''/opt/facefusion'')
                 ''cuda'' ''inswapper_128'' False example_fs"
  have 1: "fst ?bad = Inl (Exn FileNotFoundError ''Target directory not found: nowhere'')"
    by code_simp
  from 1 construction_atomic
         [where E = example_env and source_image_arg = "''face.jpg''"
            and target_dir_arg = "''nowhere''" and output_dir_arg = "''out/deep''"
            and facefusion_path_arg = "Some ''/opt/facefusion''"
            and execution_provider_arg = "''cuda''"
            and face_swapper_model_arg = "''inswapper_128''" and verbose_arg = False
            and f = example_fs
            and e = "Exn FileNotFoundError ''Target directory not found: nowhere''"]
  have 2: "snd ?bad = example_fs"
    by blast
  have 3: "map example_fs [Path_of ''.'', Path_of ''out'', Path_of ''out/deep'']
             = [Some (Dir [''face.jpg'', ''targets'']), None, None]"
    by code_simp
  have 4: "fst ?good = Inr (example_batch\<lparr>output_dir := Path_of ''out/deep''\<rparr>)"
    by code_simp
  have 5: "map (snd ?good) [Path_of ''.'', Path_of ''out'', Path_of ''out/deep'']
     = [Some (Dir [''face.jpg'', ''targets'', ''out'']), Some (Dir [''deep'']), Some (Dir [])]"
    by code_simp
  from 4 have "?good = (Inr (example_batch\<lparr>output_dir := Path_of ''out/deep''\<rparr>), snd ?good)"
    by (cases ?good) simp
  with construction_atomic
         [where E = example_env and source_image_arg = "''face.jpg''"
            and target_dir_arg = "''targets''" and output_dir_arg = "''out/deep''"
            and facefusion_path_arg = "Some ''/opt/facefusion''"
            and execution_provider_arg = "''cuda''"
            and face_swapper_model_arg = "''inswapper_128''" and verbose_arg = False
            and f = example_fs
            and self = "example_batch\<lparr>output_dir := Path_of ''out/deep''\<rparr>"
            and f' = "snd ?good"]
  have 6: "is_dir (snd ?good) (Path_of ''out/deep'')"
    by blast
  from 1 2 3 4 5 6 show ?thesis
    by (intro conjI)
qed

end
